theory Spec2Isabelle
  imports Complex_Main "HOL-Library.Sublist" "HOL-Library.Char_ord"
    "HOL-Library.List_Lexorder" "HOL-Library.Multiset"
begin

section \<open>JavaScript numbers and values\<close>

text \<open>
  A JavaScript number is an IEEE double. The model keeps the three special values apart
  and represents every finite double by the rational it denotes; arithmetic on finite
  values is exact (the rounding error of each floating-point operation is abstracted
  away, and the two zeros are identified).
\<close>

datatype jsnum = NaN | NegInf | Fin rat | PosInf

fun js_neg :: "jsnum \<Rightarrow> jsnum" where
  "js_neg NaN = NaN"
| "js_neg NegInf = PosInf"
| "js_neg PosInf = NegInf"
| "js_neg (Fin q) = Fin (- q)"

text \<open>\<open>a + b\<close>\<close>

fun js_add :: "jsnum \<Rightarrow> jsnum \<Rightarrow> jsnum" where
  "js_add (Fin a) (Fin b) = Fin (a + b)"
| "js_add NaN _ = NaN"
| "js_add _ NaN = NaN"
| "js_add PosInf NegInf = NaN"
| "js_add NegInf PosInf = NaN"
| "js_add PosInf _ = PosInf"
| "js_add _ PosInf = PosInf"
| "js_add NegInf _ = NegInf"
| "js_add _ NegInf = NegInf"

text \<open>\<open>a - b\<close>\<close>

definition js_sub :: "jsnum \<Rightarrow> jsnum \<Rightarrow> jsnum" where
  "js_sub a b = js_add a (js_neg b)"

text \<open>\<open>a / b\<close>; a zero divisor is the positive zero (an array length).\<close>

fun js_div :: "jsnum \<Rightarrow> jsnum \<Rightarrow> jsnum" where
  "js_div (Fin a) (Fin b) =
     (if b \<noteq> 0 then Fin (a / b)
      else if 0 < a then PosInf else if a < 0 then NegInf else NaN)"
| "js_div NaN _ = NaN"
| "js_div _ NaN = NaN"
| "js_div (Fin a) _ = Fin 0"
| "js_div PosInf (Fin b) = (if 0 \<le> b then PosInf else NegInf)"
| "js_div NegInf (Fin b) = (if 0 \<le> b then NegInf else PosInf)"
| "js_div _ _ = NaN"

text \<open>\<open>a < b\<close>, \<open>a > b\<close>, \<open>a <= b\<close>: every comparison with \<open>NaN\<close> is false.\<close>

fun js_lt :: "jsnum \<Rightarrow> jsnum \<Rightarrow> bool" where
  "js_lt (Fin a) (Fin b) = (a < b)"
| "js_lt NaN _ = False"
| "js_lt _ NaN = False"
| "js_lt _ NegInf = False"
| "js_lt PosInf _ = False"
| "js_lt NegInf _ = True"
| "js_lt _ PosInf = True"

definition js_gt :: "jsnum \<Rightarrow> jsnum \<Rightarrow> bool" where
  "js_gt a b = js_lt b a"

definition js_le :: "jsnum \<Rightarrow> jsnum \<Rightarrow> bool" where
  "js_le a b = (a \<noteq> NaN \<and> b \<noteq> NaN \<and> \<not> js_lt b a)"

definition isNaN :: "jsnum \<Rightarrow> bool" where
  "isNaN n = (n = NaN)"

definition isFinite :: "jsnum \<Rightarrow> bool" where
  "isFinite n = (case n of Fin _ \<Rightarrow> True | _ \<Rightarrow> False)"

text \<open>
  \<open>Number(x.toFixed(2))\<close>. \<open>toFixed\<close> prints \<open>NaN\<close> and the infinities by name, prints a
  value of magnitude at least \<open>10^21\<close> as \<open>String(x)\<close>, and otherwise prints the integer
  \<open>n\<close> for which \<open>n / 100\<close> is nearest to \<open>|x|\<close> (the larger one on a tie) with the sign
  of \<open>x\<close>; \<open>Number\<close> reads the string back.
\<close>

definition Number_toFixed2 :: "jsnum \<Rightarrow> jsnum" where
  "Number_toFixed2 x =
     (case x of
        Fin q \<Rightarrow>
          if 10 ^ 21 \<le> \<bar>q\<bar> then Fin q
          else Fin (sgn q * (of_int \<lfloor>\<bar>q\<bar> * 100 + 1 / 2\<rfloor> / 100))
      | _ \<Rightarrow> x)"

text \<open>\<open>scores.reduce((a, b) => a + b, 0)\<close> and \<open>scores.length\<close> as a number.\<close>

definition sum_scores :: "jsnum list \<Rightarrow> jsnum" where
  "sum_scores scores = foldl js_add (Fin 0) scores"

definition js_length :: "'a list \<Rightarrow> jsnum" where
  "js_length xs = Fin (of_nat (length xs))"

text \<open>
  The values a response can hold: what the JSON column of the database and
  \<open>JSON.parse\<close> produce, and \<open>undefined\<close>. An object is the list of its own properties.
\<close>

datatype jsval =
    JUndefined
  | JNull
  | JBool bool
  | JNum jsnum
  | JStr string
  | JArr "jsval list"
  | JObj "(string \<times> jsval) list"

text \<open>
  \<open>'score' in v && typeof v.score === 'number'\<close> for a value \<open>v\<close> with
  \<open>typeof v === 'object' && v !== null\<close>: the numeric \<open>score\<close> property when there is one.
  An array has no property of that name.
\<close>

fun numeric_score :: "jsval \<Rightarrow> jsnum option" where
  "numeric_score (JObj props) =
     (case map_of props ''score'' of Some (JNum n) \<Rightarrow> Some n | _ \<Rightarrow> None)"
| "numeric_score _ = None"

fun is_object :: "jsval \<Rightarrow> bool" where
  "is_object (JObj _) = True"
| "is_object (JArr _) = True"
| "is_object _ = False"

text \<open>An evaluation either returns a value or throws.\<close>

datatype js_error = SyntaxError

datatype 'a outcome = Returns 'a | Throws js_error

text \<open>\<open>try { body } catch (e) { handler }\<close>\<close>

definition try_catch :: "'a outcome \<Rightarrow> (js_error \<Rightarrow> 'a outcome) \<Rightarrow> 'a outcome" where
  "try_catch body handler = (case body of Returns v \<Rightarrow> Returns v | Throws e \<Rightarrow> handler e)"

text \<open>
  The built-ins of the host whose results the service depends on. They are parameters
  of the model: \<open>parseFloat\<close> returns a number for every string, \<open>JSON.parse\<close> returns a
  value or throws, \<open>a.localeCompare(b)\<close> returns a negative, zero or positive number
  in the collation order of the host's locale, and \<open>parseInt\<close> returns a number.
\<close>

record host =
  parseFloat :: "string \<Rightarrow> jsnum"
  JSON_parse :: "string \<Rightarrow> jsval outcome"
  localeCompare :: "string \<Rightarrow> string \<Rightarrow> int"
  parseInt :: "string \<Rightarrow> jsnum"

section \<open>The score parser\<close>

text \<open>
  \<open>parseResponseValueToScore\<close>: \<open>score\<close> starts as \<open>null\<close>; a string is tried with
  \<open>parseFloat\<close> and then, inside \<open>try\<close>, with \<open>JSON.parse\<close> (the handler is empty, so
  \<open>score\<close> stays \<open>null\<close>); an object contributes its numeric \<open>score\<close> property; a number is
  taken as it is. The last line returns \<open>score\<close> unless it is \<open>null\<close> or \<open>NaN\<close>.
\<close>

definition parseResponseValueToScore :: "host \<Rightarrow> jsval \<Rightarrow> jsnum option outcome" where
  "parseResponseValueToScore h rawResponseValue =
     (case
        (case rawResponseValue of
           JStr s \<Rightarrow>
             (let parsedFloat = parseFloat h s in
              if \<not> isNaN parsedFloat then Returns (Some parsedFloat)
              else
                try_catch
                  (case JSON_parse h s of
                     Throws e \<Rightarrow> Throws e
                   | Returns parsedJson \<Rightarrow>
                       (if is_object parsedJson \<and> numeric_score parsedJson \<noteq> None
                        then Returns (numeric_score parsedJson)
                        else case parsedJson of
                               JNum n \<Rightarrow> Returns (Some n)
                             | _ \<Rightarrow> Returns None))
                  (\<lambda>e. Returns None))
         | JNum n \<Rightarrow> Returns (Some n)
         | _ \<Rightarrow>
             (if is_object rawResponseValue \<and> numeric_score rawResponseValue \<noteq> None
              then Returns (numeric_score rawResponseValue)
              else Returns None))
      of
        Throws e \<Rightarrow> Throws e
      | Returns score \<Rightarrow>
          (case score of
             Some n \<Rightarrow> if \<not> isNaN n then Returns (Some n) else Returns None
           | None \<Rightarrow> Returns None))"

text \<open>
  The builders read the parser's result directly; \<open>score_of\<close> is that result
  (\<open>parseResponseValueToScore_Returns\<close> below shows the parser always returns).
\<close>

definition score_of :: "host \<Rightarrow> jsval \<Rightarrow> jsnum option" where
  "score_of h v = (case parseResponseValueToScore h v of Returns r \<Rightarrow> r | Throws _ \<Rightarrow> None)"

section \<open>Strings\<close>

text \<open>
  \<open>s.toLowerCase()\<close> on the ASCII letters (a string is a list of bytes here; other
  characters are left alone) and \<open>s.includes(t)\<close>.
\<close>

definition toLowerCase_char :: "char \<Rightarrow> char" where
  "toLowerCase_char c =
     (if CHR ''A'' \<le> c \<and> c \<le> CHR ''Z'' then char_of (of_char c + (32::nat)) else c)"

definition toLowerCase :: "string \<Rightarrow> string" where
  "toLowerCase s = map toLowerCase_char s"

fun str_includes :: "string \<Rightarrow> string \<Rightarrow> bool" where
  "str_includes [] t = (t = [])"
| "str_includes (c # s) t = (prefix t (c # s) \<or> str_includes s t)"

text \<open>\<open>name?.toLowerCase().includes(t)\<close> used as a condition: \<open>undefined\<close> is falsy.\<close>

definition lower_includes :: "string option \<Rightarrow> string \<Rightarrow> bool" where
  "lower_includes name t = (case name of None \<Rightarrow> False | Some n \<Rightarrow> str_includes (toLowerCase n) t)"

text \<open>A string or \<open>null\<close> used as a condition: \<open>null\<close> and the empty string are falsy.\<close>

definition truthy :: "string option \<Rightarrow> bool" where
  "truthy v = (case v of None \<Rightarrow> False | Some s \<Rightarrow> s \<noteq> [])"

text \<open>\<open>key.split('|')\<close>\<close>

fun split_bar :: "string \<Rightarrow> string list" where
  "split_bar [] = [[]]"
| "split_bar (c # s) =
     (if c = CHR ''|'' then [] # split_bar s
      else case split_bar s of p # ps \<Rightarrow> (c # p) # ps | [] \<Rightarrow> [[c]])"

text \<open>Element \<open>i\<close> of an array in a destructuring pattern; \<open>undefined\<close> prints as such.\<close>

definition piece :: "string list \<Rightarrow> nat \<Rightarrow> string" where
  "piece ps i = (if i < length ps then ps ! i else ''undefined'')"

text \<open>An integer in a template literal: its decimal digits.\<close>

fun digits :: "nat \<Rightarrow> string" where
  "digits n = (if n < 10 then [char_of (48 + n)] else digits (n div 10) @ [char_of (48 + n mod 10)])"

definition int_to_string :: "int \<Rightarrow> string" where
  "int_to_string i = (if i < 0 then CHR ''-'' # digits (nat (- i)) else digits (nat i))"

section \<open>Feedback records\<close>

datatype LectureType = LECTURE | LAB

definition LectureType_string :: "LectureType \<Rightarrow> string" where
  "LectureType_string t = (case t of LECTURE \<Rightarrow> ''LECTURE'' | LAB \<Rightarrow> ''LAB'')"

text \<open>
  One row handed to the engine. The rows of the \<open>feedbackSnapshot\<close> table and the rows
  of the join in \<open>getOptimizedAnalyticsData\<close> are modelled by one record that has the
  columns of both; the aggregation helpers take \<open>any[]\<close>.
\<close>

record snapshot =
  subjectId :: string
  subjectName :: string
  subjectAbbreviation :: string
  subjectCode :: string
  facultyId :: string
  facultyName :: string
  facultyAbbreviation :: string
  facultyDesignation :: "string option"
  divisionId :: string
  divisionName :: string
  departmentId :: string
  departmentName :: string
  semesterId :: string
  semesterNumber :: int
  academicYearId :: string
  academicYearString :: string
  studentId :: "string option"
  questionCategoryName :: "string option"
  questionBatch :: "string option"
  batch :: "string option"
  responseValue :: jsval
  lectureType :: LectureType
  isDeleted :: bool
  formDeleted :: bool
  formIsDeleted :: bool
  questionIsDeleted :: bool
  semesterIsDeleted :: bool
  divisionIsDeleted :: bool
  subjectIsDeleted :: bool
  departmentIsDeleted :: bool
  academicYearIsDeleted :: bool

section \<open>The lecture/lab classification at its use sites\<close>

text \<open>\<open>deriveLectureType\<close> of \<open>getSubjectDetailedAnalytics\<close>.\<close>

definition deriveLectureType_subject :: "snapshot \<Rightarrow> LectureType" where
  "deriveLectureType_subject snapshot =
     (if lower_includes (questionCategoryName snapshot) ''laboratory''
         \<or> lower_includes (questionCategoryName snapshot) ''lab''
      then LAB
      else if truthy (questionBatch snapshot)
              \<and> map_option toLowerCase (questionBatch snapshot) \<noteq> Some ''none''
      then LAB
      else LECTURE)"


text \<open>\<open>deriveLectureType\<close> of \<open>getDivisionDetailedAnalytics\<close>.\<close>

definition deriveLectureType_division :: "snapshot \<Rightarrow> LectureType" where
  "deriveLectureType_division snapshot =
     (if lower_includes (questionCategoryName snapshot) ''laboratory''
         \<or> lower_includes (questionCategoryName snapshot) ''lab''
      then LAB
      else if truthy (questionBatch snapshot)
              \<and> map_option toLowerCase (questionBatch snapshot) \<noteq> Some ''none''
      then LAB
      else LECTURE)"


definition getCompleteAnalyticsData_groupLectureType :: "snapshot \<Rightarrow> LectureType" where
  "getCompleteAnalyticsData_groupLectureType snapshot =
     (if lower_includes (questionCategoryName snapshot) ''laboratory''
         \<or> lower_includes (questionCategoryName snapshot) ''lab''
      then LAB
      else LECTURE)"

definition getCompleteAnalyticsData_groupKey :: "snapshot \<Rightarrow> string" where
  "getCompleteAnalyticsData_groupKey snapshot =
     subjectName snapshot @ ''|''
       @ LectureType_string (getCompleteAnalyticsData_groupLectureType snapshot) @ ''|''
       @ int_to_string (semesterNumber snapshot)"


section \<open>Maps, grouping and sorting\<close>

text \<open>
  A \<open>Map\<close> is the list of its entries in insertion order. The builders all use it the same
  way: \<open>if (!m.has(k)) m.set(k, init); const e = m.get(k); ...update e...\<close>.
\<close>

fun map_upsert :: "'k \<Rightarrow> 'v \<Rightarrow> ('v \<Rightarrow> 'v) \<Rightarrow> ('k \<times> 'v) list \<Rightarrow> ('k \<times> 'v) list" where
  "map_upsert k init upd [] = [(k, upd init)]"
| "map_upsert k init upd ((k', v) # m) =
     (if k = k' then (k', upd v) # m else (k', v) # map_upsert k init upd m)"

text \<open>
  \<open>groupBy\<close>: the \<open>groups\<close> object is the list of its properties in creation order, which
  is the order of \<open>Object.entries\<close> for keys that are not array indices (every key built
  by a caller contains \<open>|\<close>).
\<close>

definition groupBy :: "'a list \<Rightarrow> ('a \<Rightarrow> string) \<Rightarrow> (string \<times> 'a list) list" where
  "groupBy array key =
     foldl (\<lambda>groups item. map_upsert (key item) [] (\<lambda>g. g @ [item]) groups) [] array"

text \<open>
  \<open>Array.prototype.sort(cmp)\<close> is stable, and with a consistent comparator its result is
  the one stable sorted arrangement; insertion from the right computes it, moving an
  element behind exactly those for which \<open>cmp\<close> is positive.
\<close>

fun sort_insert :: "('a \<Rightarrow> 'a \<Rightarrow> jsnum) \<Rightarrow> 'a \<Rightarrow> 'a list \<Rightarrow> 'a list" where
  "sort_insert cmp x [] = [x]"
| "sort_insert cmp x (y # ys) =
     (if js_gt (cmp x y) (Fin 0) then y # sort_insert cmp x ys else x # y # ys)"

definition js_sort :: "('a \<Rightarrow> 'a \<Rightarrow> jsnum) \<Rightarrow> 'a list \<Rightarrow> 'a list" where
  "js_sort cmp xs = foldr (sort_insert cmp) xs []"

text \<open>\<open>a.localeCompare(b)\<close> as a number.\<close>

definition js_localeCompare :: "host \<Rightarrow> string \<Rightarrow> string \<Rightarrow> jsnum" where
  "js_localeCompare h a b = Fin (of_int (localeCompare h a b))"

text \<open>\<open>xs.findIndex(p)\<close>\<close>

fun findIndex :: "('a \<Rightarrow> bool) \<Rightarrow> 'a list \<Rightarrow> int" where
  "findIndex p [] = - 1"
| "findIndex p (x # xs) =
     (if p x then 0 else let i = findIndex p xs in if i < 0 then - 1 else i + 1)"

text \<open>\<open>Number((scores.reduce((a, b) => a + b, 0) / scores.length).toFixed(2))\<close>\<close>

definition mean2 :: "jsnum list \<Rightarrow> jsnum" where
  "mean2 scores = Number_toFixed2 (js_div (sum_scores scores) (js_length scores))"

section \<open>Rollup builders\<close>

text \<open>
  The guard at the top of every \<open>forEach\<close> body,
  \<open>if (score === null || score <= 0) return\<close>, and the filter
  \<open>score !== null && score > 0\<close>.
\<close>

definition skipped :: "jsnum option \<Rightarrow> bool" where
  "skipped score = (case score of None \<Rightarrow> True | Some n \<Rightarrow> js_le n (Fin 0))"

definition positive :: "jsnum option \<Rightarrow> bool" where
  "positive score = (case score of None \<Rightarrow> False | Some n \<Rightarrow> js_gt n (Fin 0))"

text \<open>\<open>xs.map(f).filter(p)\<close> on the parsed scores, keeping the numbers.\<close>

definition parsed_scores :: "host \<Rightarrow> (jsnum option \<Rightarrow> bool) \<Rightarrow> snapshot list \<Rightarrow> jsnum list" where
  "parsed_scores h p snapshots =
     map the (filter p (map (\<lambda>s. score_of h (responseValue s)) snapshots))"

definition not_null :: "jsnum option \<Rightarrow> bool" where
  "not_null score = (score \<noteq> None)"

subsection \<open>\<open>calculateOverallStats\<close>\<close>

record OverallStats =
  os_totalResponses :: nat
  os_averageRating :: jsnum
  os_uniqueSubjects :: nat
  os_uniqueFaculties :: nat
  os_uniqueStudents :: nat
  os_uniqueDivisions :: nat

definition calculateOverallStats :: "host \<Rightarrow> snapshot list \<Rightarrow> OverallStats" where
  "calculateOverallStats h snapshots =
     (let scores = parsed_scores h positive snapshots;
          uniqueSubjects = set (map subjectId snapshots);
          uniqueFaculties = set (map facultyId snapshots);
          uniqueStudents = set (filter truthy (map studentId snapshots));
          uniqueDivisions = set (map divisionId snapshots)
      in \<lparr> os_totalResponses = length scores,
           os_averageRating = (if length scores > 0 then mean2 scores else Fin 0),
           os_uniqueSubjects = card uniqueSubjects,
           os_uniqueFaculties = card uniqueFaculties,
           os_uniqueStudents = card uniqueStudents,
           os_uniqueDivisions = card uniqueDivisions \<rparr>)"

subsection \<open>\<open>aggregateSubjectRatings\<close>\<close>

record subject_entry =
  se_subjectId :: string
  se_subjectName :: string
  se_subjectAbbreviation :: string
  se_subjectCode :: string
  se_lectureScores :: "jsnum list"
  se_labScores :: "jsnum list"
  se_faculties :: "string set"
  se_divisions :: "string set"

record SubjectRatingAggregated =
  sr_subjectId :: string
  sr_subjectName :: string
  sr_subjectAbbreviation :: string
  sr_subjectCode :: string
  sr_lectureRating :: "jsnum option"
  sr_labRating :: "jsnum option"
  sr_overallRating :: jsnum
  sr_lectureResponses :: nat
  sr_labResponses :: nat
  sr_totalResponses :: nat
  sr_facultyCount :: nat
  sr_divisionCount :: nat

text \<open>The body of the \<open>forEach\<close>, on the map built so far.\<close>

definition aggregateSubjectRatings_step ::
  "host \<Rightarrow> (string \<times> subject_entry) list \<Rightarrow> snapshot \<Rightarrow> (string \<times> subject_entry) list" where
  "aggregateSubjectRatings_step h subjectMap snapshot =
     (let score = score_of h (responseValue snapshot) in
      if skipped score then subjectMap
      else
        map_upsert (subjectId snapshot)
          \<lparr> se_subjectId = subjectId snapshot,
            se_subjectName = subjectName snapshot,
            se_subjectAbbreviation = subjectAbbreviation snapshot,
            se_subjectCode = subjectCode snapshot,
            se_lectureScores = [],
            se_labScores = [],
            se_faculties = {},
            se_divisions = {} \<rparr>
          (\<lambda>subject.
             (if lectureType snapshot = LECTURE
              then subject\<lparr> se_lectureScores := se_lectureScores subject @ [the score] \<rparr>
              else subject\<lparr> se_labScores := se_labScores subject @ [the score] \<rparr>)
             \<lparr> se_faculties := insert (facultyId snapshot) (se_faculties subject),
               se_divisions := insert (divisionId snapshot) (se_divisions subject) \<rparr>)
          subjectMap)"

definition aggregateSubjectRatings_row :: "subject_entry \<Rightarrow> SubjectRatingAggregated" where
  "aggregateSubjectRatings_row subject =
     (let allScores = se_lectureScores subject @ se_labScores subject
      in \<lparr> sr_subjectId = se_subjectId subject,
           sr_subjectName = se_subjectName subject,
           sr_subjectAbbreviation = se_subjectAbbreviation subject,
           sr_subjectCode = se_subjectCode subject,
           sr_lectureRating =
             (if length (se_lectureScores subject) > 0
              then Some (mean2 (se_lectureScores subject)) else None),
           sr_labRating =
             (if length (se_labScores subject) > 0
              then Some (mean2 (se_labScores subject)) else None),
           sr_overallRating = (if length allScores > 0 then mean2 allScores else Fin 0),
           sr_lectureResponses = length (se_lectureScores subject),
           sr_labResponses = length (se_labScores subject),
           sr_totalResponses = length allScores,
           sr_facultyCount = card (se_faculties subject),
           sr_divisionCount = card (se_divisions subject) \<rparr>)"

definition aggregateSubjectRatings :: "host \<Rightarrow> snapshot list \<Rightarrow> SubjectRatingAggregated list" where
  "aggregateSubjectRatings h snapshots =
     js_sort (\<lambda>a b. js_sub (sr_overallRating b) (sr_overallRating a))
       (map aggregateSubjectRatings_row
          (map snd (foldl (aggregateSubjectRatings_step h) [] snapshots)))"

subsection \<open>\<open>aggregateFacultyPerformance\<close>\<close>

record faculty_entry =
  fe_facultyId :: string
  fe_facultyName :: string
  fe_facultyAbbreviation :: string
  fe_designation :: string
  fe_scores :: "jsnum list"
  fe_subjects :: "string set"
  fe_divisions :: "string set"

record FacultyPerformanceAggregated =
  fp_facultyId :: string
  fp_facultyName :: string
  fp_facultyAbbreviation :: string
  fp_designation :: string
  fp_averageRating :: jsnum
  fp_totalResponses :: nat
  fp_subjectCount :: nat
  fp_divisionCount :: nat
  fp_rank :: nat

definition aggregateFacultyPerformance_step ::
  "host \<Rightarrow> (string \<times> faculty_entry) list \<Rightarrow> snapshot \<Rightarrow> (string \<times> faculty_entry) list" where
  "aggregateFacultyPerformance_step h facultyMap snapshot =
     (let score = score_of h (responseValue snapshot) in
      if skipped score then facultyMap
      else
        map_upsert (facultyId snapshot)
          \<lparr> fe_facultyId = facultyId snapshot,
            fe_facultyName = facultyName snapshot,
            fe_facultyAbbreviation = facultyAbbreviation snapshot,
            fe_designation =
              (if truthy (facultyDesignation snapshot)
               then the (facultyDesignation snapshot) else ''N/A''),
            fe_scores = [],
            fe_subjects = {},
            fe_divisions = {} \<rparr>
          (\<lambda>faculty.
             faculty\<lparr> fe_scores := fe_scores faculty @ [the score],
                      fe_subjects := insert (subjectId snapshot) (fe_subjects faculty),
                      fe_divisions := insert (divisionId snapshot) (fe_divisions faculty) \<rparr>)
          facultyMap)"

definition aggregateFacultyPerformance_row :: "faculty_entry \<Rightarrow> FacultyPerformanceAggregated" where
  "aggregateFacultyPerformance_row faculty =
     \<lparr> fp_facultyId = fe_facultyId faculty,
       fp_facultyName = fe_facultyName faculty,
       fp_facultyAbbreviation = fe_facultyAbbreviation faculty,
       fp_designation = fe_designation faculty,
       fp_averageRating =
         (if length (fe_scores faculty) > 0 then mean2 (fe_scores faculty) else Fin 0),
       fp_totalResponses = length (fe_scores faculty),
       fp_subjectCount = card (fe_subjects faculty),
       fp_divisionCount = card (fe_divisions faculty),
       fp_rank = 0 \<rparr>"

text \<open>\<open>facultyList.forEach((faculty, index) => { faculty.rank = index + 1 })\<close>\<close>

definition assign_ranks :: "FacultyPerformanceAggregated list \<Rightarrow> FacultyPerformanceAggregated list" where
  "assign_ranks facultyList =
     map (\<lambda>(index, faculty). faculty\<lparr> fp_rank := index + 1 \<rparr>) (enumerate 0 facultyList)"

definition aggregateFacultyPerformance ::
  "host \<Rightarrow> snapshot list \<Rightarrow> FacultyPerformanceAggregated list" where
  "aggregateFacultyPerformance h snapshots =
     assign_ranks
       (js_sort (\<lambda>a b. js_sub (fp_averageRating b) (fp_averageRating a))
          (map aggregateFacultyPerformance_row
             (map snd (foldl (aggregateFacultyPerformance_step h) [] snapshots))))"

subsection \<open>\<open>aggregateDivisionPerformance\<close>\<close>

record division_entry =
  de_divisionId :: string
  de_divisionName :: string
  de_departmentName :: string
  de_semesterNumber :: int
  de_scores :: "jsnum list"
  de_faculties :: "string set"
  de_subjects :: "string set"

record DivisionPerformanceAggregated =
  dp_divisionId :: string
  dp_divisionName :: string
  dp_departmentName :: string
  dp_semesterNumber :: int
  dp_averageRating :: jsnum
  dp_totalResponses :: nat
  dp_facultyCount :: nat
  dp_subjectCount :: nat

definition aggregateDivisionPerformance_step ::
  "host \<Rightarrow> (string \<times> division_entry) list \<Rightarrow> snapshot \<Rightarrow> (string \<times> division_entry) list" where
  "aggregateDivisionPerformance_step h divisionMap snapshot =
     (let score = score_of h (responseValue snapshot) in
      if skipped score then divisionMap
      else
        map_upsert (divisionId snapshot)
          \<lparr> de_divisionId = divisionId snapshot,
            de_divisionName = divisionName snapshot,
            de_departmentName = departmentName snapshot,
            de_semesterNumber = semesterNumber snapshot,
            de_scores = [],
            de_faculties = {},
            de_subjects = {} \<rparr>
          (\<lambda>division.
             division\<lparr> de_scores := de_scores division @ [the score],
                       de_faculties := insert (facultyId snapshot) (de_faculties division),
                       de_subjects := insert (subjectId snapshot) (de_subjects division) \<rparr>)
          divisionMap)"

definition aggregateDivisionPerformance_row :: "division_entry \<Rightarrow> DivisionPerformanceAggregated" where
  "aggregateDivisionPerformance_row division =
     \<lparr> dp_divisionId = de_divisionId division,
       dp_divisionName = de_divisionName division,
       dp_departmentName = de_departmentName division,
       dp_semesterNumber = de_semesterNumber division,
       dp_averageRating =
         (if length (de_scores division) > 0 then mean2 (de_scores division) else Fin 0),
       dp_totalResponses = length (de_scores division),
       dp_facultyCount = card (de_faculties division),
       dp_subjectCount = card (de_subjects division) \<rparr>"

definition aggregateDivisionPerformance ::
  "host \<Rightarrow> snapshot list \<Rightarrow> DivisionPerformanceAggregated list" where
  "aggregateDivisionPerformance h snapshots =
     js_sort (\<lambda>a b. js_localeCompare h (dp_divisionName a) (dp_divisionName b))
       (map aggregateDivisionPerformance_row
          (map snd (foldl (aggregateDivisionPerformance_step h) [] snapshots)))"

subsection \<open>\<open>aggregateAcademicYearTrends\<close>\<close>

record year_entry =
  ye_academicYearId :: string
  ye_academicYearString :: string
  ye_scores :: "jsnum list"
  ye_departments :: "string set"
  ye_divisions :: "string set"

record AcademicYearTrendAggregated =
  yt_academicYearId :: string
  yt_academicYearString :: string
  yt_averageRating :: jsnum
  yt_totalResponses :: nat
  yt_departmentCount :: nat
  yt_divisionCount :: nat

definition aggregateAcademicYearTrends_step ::
  "host \<Rightarrow> (string \<times> year_entry) list \<Rightarrow> snapshot \<Rightarrow> (string \<times> year_entry) list" where
  "aggregateAcademicYearTrends_step h yearMap snapshot =
     (let score = score_of h (responseValue snapshot) in
      if skipped score then yearMap
      else
        map_upsert (academicYearId snapshot)
          \<lparr> ye_academicYearId = academicYearId snapshot,
            ye_academicYearString = academicYearString snapshot,
            ye_scores = [],
            ye_departments = {},
            ye_divisions = {} \<rparr>
          (\<lambda>year.
             year\<lparr> ye_scores := ye_scores year @ [the score],
                   ye_departments := insert (departmentId snapshot) (ye_departments year),
                   ye_divisions := insert (divisionId snapshot) (ye_divisions year) \<rparr>)
          yearMap)"

definition aggregateAcademicYearTrends_row :: "year_entry \<Rightarrow> AcademicYearTrendAggregated" where
  "aggregateAcademicYearTrends_row year =
     \<lparr> yt_academicYearId = ye_academicYearId year,
       yt_academicYearString = ye_academicYearString year,
       yt_averageRating =
         (if length (ye_scores year) > 0 then mean2 (ye_scores year) else Fin 0),
       yt_totalResponses = length (ye_scores year),
       yt_departmentCount = card (ye_departments year),
       yt_divisionCount = card (ye_divisions year) \<rparr>"

definition aggregateAcademicYearTrends ::
  "host \<Rightarrow> snapshot list \<Rightarrow> AcademicYearTrendAggregated list" where
  "aggregateAcademicYearTrends h snapshots =
     js_sort (\<lambda>a b. js_localeCompare h (yt_academicYearString a) (yt_academicYearString b))
       (map aggregateAcademicYearTrends_row
          (map snd (foldl (aggregateAcademicYearTrends_step h) [] snapshots)))"

section \<open>The database and the errors of the service\<close>

text \<open>
  The tables the modelled queries read. \<open>findMany\<close> returns the rows that satisfy the
  \<open>where\<close> clause, in the order of the table; \<open>findUnique\<close> looks a row up by its id.
\<close>

record semester_row =
  sem_semesterNumber :: int
  sem_academicYearId :: string
  sem_isDeleted :: bool

record entity_row =
  ent_name :: string
  ent_isDeleted :: bool

record faculty_row =
  fac_name :: string
  fac_isDeleted :: bool
  fac_designation :: "string option"

record database =
  db_feedbackSnapshot :: "snapshot list"
  db_semester :: "string \<rightharpoonup> semester_row"
  db_subject :: "string \<rightharpoonup> entity_row"
  db_faculty :: "string \<rightharpoonup> faculty_row"
  db_division :: "string \<rightharpoonup> entity_row"

definition findMany :: "('a \<Rightarrow> bool) \<Rightarrow> 'a list \<Rightarrow> 'a list" where
  "findMany whereClause table = filter whereClause table"

text \<open>\<open>...(arg && { column: arg })\<close> in a \<open>where\<close> clause: a filter only for a truthy argument.\<close>

definition optional_eq :: "string option \<Rightarrow> string \<Rightarrow> bool" where
  "optional_eq arg column = (truthy arg \<longrightarrow> column = the arg)"

text \<open>\<open>new AppError(message, statusCode)\<close>\<close>

record AppError =
  message :: string
  statusCode :: nat

definition dquote :: string where
  "dquote = [CHR 0x22]"

section \<open>The older per-semester builders\<close>

subsection \<open>\<open>getSubjectWiseLectureLabRating\<close>\<close>

record SubjectWiseRatingOutput =
  sw_subject :: string
  sw_lectureType :: string
  sw_averageRating :: jsnum
  sw_responseCount :: nat

definition getSubjectWiseLectureLabRating_key :: "snapshot \<Rightarrow> string" where
  "getSubjectWiseLectureLabRating_key snapshot =
     (let lectureType =
            (if lower_includes (questionCategoryName snapshot) ''laboratory''
                \<or> lower_includes (questionCategoryName snapshot) ''lab''
             then LAB
             else if truthy (batch snapshot)
                     \<and> map_option toLowerCase (batch snapshot) \<noteq> Some ''none''
             then LAB
             else LECTURE)
      in subjectName snapshot @ ''|'' @ LectureType_string lectureType)"

definition getSubjectWiseLectureLabRating_row ::
  "host \<Rightarrow> string \<times> snapshot list \<Rightarrow> SubjectWiseRatingOutput" where
  "getSubjectWiseLectureLabRating_row h entry =
     (case entry of (key, snapshots) \<Rightarrow>
        let subjectName = piece (split_bar key) 0;
            lectureType = piece (split_bar key) 1;
            numericResponses = parsed_scores h not_null snapshots;
            avgRating =
              (if length numericResponses > 0
               then js_div (sum_scores numericResponses) (js_length numericResponses)
               else Fin 0)
        in \<lparr> sw_subject = subjectName,
             sw_lectureType = lectureType,
             sw_averageRating = Number_toFixed2 avgRating,
             sw_responseCount = length snapshots \<rparr>)"

definition getSubjectWiseLectureLabRating ::
  "host \<Rightarrow> database \<Rightarrow> string \<Rightarrow> string option \<Rightarrow> AppError + SubjectWiseRatingOutput list" where
  "getSubjectWiseLectureLabRating h db semesterIdArg academicYearIdArg =
     (case (case db_semester db semesterIdArg of
              None \<Rightarrow> None
            | Some r \<Rightarrow> if sem_isDeleted r then None else Some r) of
        None \<Rightarrow> Inl \<lparr> message = ''Semester not found.'', statusCode = 404 \<rparr>
      | Some semester \<Rightarrow>
          (let snapshots =
                 findMany
                   (\<lambda>s. \<not> isDeleted s \<and> \<not> formDeleted s
                        \<and> semesterNumber s = sem_semesterNumber semester
                        \<and> academicYearId s =
                            (if truthy academicYearIdArg then the academicYearIdArg
                             else sem_academicYearId semester))
                   (db_feedbackSnapshot db)
           in if length snapshots = 0
              then Inl \<lparr> message = ''No feedback data found for the given semester.'',
                         statusCode = 404 \<rparr>
              else Inr (js_sort (\<lambda>a b. js_localeCompare h (sw_subject a) (sw_subject b))
                          (map (getSubjectWiseLectureLabRating_row h)
                             (groupBy snapshots getSubjectWiseLectureLabRating_key)))))"

subsection \<open>\<open>getSemesterTrendAnalysis\<close>\<close>

record SemesterTrendAnalysisOutput =
  st_semester :: jsnum
  st_subject :: string
  st_averageRating :: jsnum
  st_responseCount :: nat

definition getSemesterTrendAnalysis_row ::
  "host \<Rightarrow> string \<times> snapshot list \<Rightarrow> SemesterTrendAnalysisOutput" where
  "getSemesterTrendAnalysis_row h entry =
     (case entry of (key, snapshots) \<Rightarrow>
        let semesterNumber = piece (split_bar key) 0;
            subjectName = piece (split_bar key) 1;
            numericResponses = parsed_scores h not_null snapshots;
            avgRating =
              (if length numericResponses > 0
               then js_div (sum_scores numericResponses) (js_length numericResponses)
               else Fin 0)
        in \<lparr> st_semester = parseInt h semesterNumber,
             st_subject = subjectName,
             st_averageRating = Number_toFixed2 avgRating,
             st_responseCount = length snapshots \<rparr>)"

text \<open>\<open>a !== b\<close> on numbers\<close>

definition js_strict_neq :: "jsnum \<Rightarrow> jsnum \<Rightarrow> bool" where
  "js_strict_neq a b = (a = NaN \<or> b = NaN \<or> a \<noteq> b)"

text \<open>
  The rows of the query are taken in the order of the table (its \<open>orderBy\<close> is the
  database's); the result is sorted again at the end.
\<close>

definition getSemesterTrendAnalysis ::
  "host \<Rightarrow> database \<Rightarrow> string option \<Rightarrow> string option
     \<Rightarrow> AppError + SemesterTrendAnalysisOutput list" where
  "getSemesterTrendAnalysis h db subjectIdArg academicYearIdArg =
     (let snapshots =
            findMany
              (\<lambda>s. \<not> isDeleted s \<and> \<not> formDeleted s
                   \<and> optional_eq subjectIdArg (subjectId s)
                   \<and> optional_eq academicYearIdArg (academicYearId s))
              (db_feedbackSnapshot db)
      in if length snapshots = 0
         then Inl \<lparr> message = ''No trend data available for the given criteria.'',
                    statusCode = 404 \<rparr>
         else Inr (js_sort
                     (\<lambda>a b. if js_strict_neq (st_semester a) (st_semester b)
                            then js_sub (st_semester a) (st_semester b)
                            else js_localeCompare h (st_subject a) (st_subject b))
                     (map (getSemesterTrendAnalysis_row h)
                        (groupBy snapshots
                           (\<lambda>snapshot. int_to_string (semesterNumber snapshot) @ ''|''
                                          @ subjectName snapshot)))))"

section \<open>Detail builders\<close>

text \<open>
  Of each result the model keeps the header, the overall figures, and the parts the
  properties below are about. The three functions rethrow an \<open>AppError\<close> unchanged
  (\<open>if (error instanceof AppError) throw error\<close>), so the error raised inside is the
  error of the call.
\<close>

text \<open>
  The loop that files every positive score under lecture or lab; the state is the
  pair \<open>(lectureScores, labScores)\<close>.
\<close>

definition file_score ::
  "host \<Rightarrow> (snapshot \<Rightarrow> LectureType) \<Rightarrow> jsnum list \<times> jsnum list \<Rightarrow> snapshot
     \<Rightarrow> jsnum list \<times> jsnum list" where
  "file_score h deriveLectureType acc s =
     (case acc of (lectureScores, labScores) \<Rightarrow>
        let score = score_of h (responseValue s);
            lectureType = deriveLectureType s
        in if positive score
           then (if lectureType = LECTURE
                 then (lectureScores @ [the score], labScores)
                 else (lectureScores, labScores @ [the score]))
           else (lectureScores, labScores))"

subsection \<open>\<open>getSubjectDetailedAnalytics\<close>\<close>

record SubjectDetailedAnalytics =
  sd_id :: string
  sd_name :: string
  sd_abbreviation :: string
  sd_code :: string
  sd_overallRating :: jsnum
  sd_lectureRating :: "jsnum option"
  sd_labRating :: "jsnum option"
  sd_totalResponses :: nat
  sd_lectureResponses :: nat
  sd_labResponses :: nat

definition getSubjectDetailedAnalytics_whereClause ::
  "string \<Rightarrow> string option \<Rightarrow> string option \<Rightarrow> string option \<Rightarrow> snapshot \<Rightarrow> bool" where
  "getSubjectDetailedAnalytics_whereClause subjectIdArg academicYearIdArg semesterIdArg
       departmentIdArg s =
     (subjectId s = subjectIdArg
      \<and> \<not> isDeleted s \<and> \<not> subjectIsDeleted s \<and> \<not> formIsDeleted s
      \<and> \<not> questionIsDeleted s \<and> \<not> semesterIsDeleted s \<and> \<not> divisionIsDeleted s
      \<and> \<not> departmentIsDeleted s \<and> \<not> academicYearIsDeleted s
      \<and> optional_eq academicYearIdArg (academicYearId s)
      \<and> optional_eq semesterIdArg (semesterId s)
      \<and> optional_eq departmentIdArg (departmentId s))"

definition getSubjectDetailedAnalytics ::
  "host \<Rightarrow> database \<Rightarrow> string \<Rightarrow> string option \<Rightarrow> string option \<Rightarrow> string option
     \<Rightarrow> AppError + SubjectDetailedAnalytics" where
  "getSubjectDetailedAnalytics h db subjectIdArg academicYearIdArg semesterIdArg departmentIdArg =
     (let snapshots =
            findMany
              (getSubjectDetailedAnalytics_whereClause subjectIdArg academicYearIdArg
                 semesterIdArg departmentIdArg)
              (db_feedbackSnapshot db)
      in case snapshots of
           [] \<Rightarrow>
             (case db_subject db subjectIdArg of
                None \<Rightarrow>
                  Inl \<lparr> message = ''Subject with ID '' @ subjectIdArg @ '' does not exist.'',
                        statusCode = 404 \<rparr>
              | Some subjectExists \<Rightarrow>
                  if ent_isDeleted subjectExists
                  then Inl \<lparr> message = ''Subject '' @ dquote @ ent_name subjectExists @ dquote
                                         @ '' has been deleted.'',
                             statusCode = 404 \<rparr>
                  else Inl \<lparr> message = ''Subject '' @ dquote @ ent_name subjectExists @ dquote
                                         @ '' has no feedback data matching the selected filters.'',
                             statusCode = 404 \<rparr>)
         | firstSnapshot # _ \<Rightarrow>
             (case foldl (file_score h deriveLectureType_subject) ([], []) snapshots of
                (lectureScores, labScores) \<Rightarrow>
                  let allScores = lectureScores @ labScores
                  in Inr \<lparr> sd_id = subjectId firstSnapshot,
                           sd_name = subjectName firstSnapshot,
                           sd_abbreviation = subjectAbbreviation firstSnapshot,
                           sd_code = subjectCode firstSnapshot,
                           sd_overallRating =
                             (if length allScores > 0 then mean2 allScores else Fin 0),
                           sd_lectureRating =
                             (if length lectureScores > 0 then Some (mean2 lectureScores)
                              else None),
                           sd_labRating =
                             (if length labScores > 0 then Some (mean2 labScores) else None),
                           sd_totalResponses = length allScores,
                           sd_lectureResponses = length lectureScores,
                           sd_labResponses = length labScores \<rparr>))"

subsection \<open>\<open>getFacultyDetailedAnalytics\<close>\<close>

record FacultyDetailedAnalytics =
  fd_id :: string
  fd_name :: string
  fd_abbreviation :: string
  fd_designation :: string
  fd_overallRating :: jsnum
  fd_totalResponses :: nat
  fd_rank :: int
  fd_totalFaculty :: nat

record score_entry =
  sc_name :: string
  sc_scores :: "jsnum list"

record ranked_entry =
  rf_facultyId :: string
  rf_avgRating :: jsnum

definition getFacultyDetailedAnalytics_whereClause ::
  "string \<Rightarrow> string option \<Rightarrow> snapshot \<Rightarrow> bool" where
  "getFacultyDetailedAnalytics_whereClause facultyIdArg academicYearIdArg s =
     (facultyId s = facultyIdArg
      \<and> \<not> isDeleted s \<and> \<not> formIsDeleted s \<and> \<not> questionIsDeleted s
      \<and> \<not> semesterIsDeleted s \<and> \<not> divisionIsDeleted s \<and> \<not> subjectIsDeleted s
      \<and> \<not> academicYearIsDeleted s
      \<and> optional_eq academicYearIdArg (academicYearId s))"

text \<open>The \<open>where\<close> clause of the second query, \<open>allFacultySnapshots\<close>.\<close>

definition allFacultySnapshots_whereClause :: "string option \<Rightarrow> snapshot \<Rightarrow> bool" where
  "allFacultySnapshots_whereClause academicYearIdArg s =
     (\<not> isDeleted s \<and> \<not> formIsDeleted s \<and> \<not> academicYearIsDeleted s
      \<and> optional_eq academicYearIdArg (academicYearId s))"

definition facultyScoreMap_step ::
  "host \<Rightarrow> (string \<times> score_entry) list \<Rightarrow> snapshot \<Rightarrow> (string \<times> score_entry) list" where
  "facultyScoreMap_step h facultyScoreMap s =
     (let score = score_of h (responseValue s) in
      if skipped score then facultyScoreMap
      else
        map_upsert (facultyId s)
          \<lparr> sc_name = facultyName s, sc_scores = [] \<rparr>
          (\<lambda>data. data\<lparr> sc_scores := sc_scores data @ [the score] \<rparr>)
          facultyScoreMap)"

definition rankedFaculty :: "host \<Rightarrow> snapshot list \<Rightarrow> ranked_entry list" where
  "rankedFaculty h allFacultySnapshots =
     js_sort (\<lambda>a b. js_sub (rf_avgRating b) (rf_avgRating a))
       (map (\<lambda>(id, data).
               \<lparr> rf_facultyId = id,
                 rf_avgRating = js_div (sum_scores (sc_scores data)) (js_length (sc_scores data)) \<rparr>)
          (foldl (facultyScoreMap_step h) [] allFacultySnapshots))"

definition getFacultyDetailedAnalytics ::
  "host \<Rightarrow> database \<Rightarrow> string \<Rightarrow> string option \<Rightarrow> AppError + FacultyDetailedAnalytics" where
  "getFacultyDetailedAnalytics h db facultyIdArg academicYearIdArg =
     (let snapshots =
            findMany (getFacultyDetailedAnalytics_whereClause facultyIdArg academicYearIdArg)
              (db_feedbackSnapshot db)
      in case snapshots of
           [] \<Rightarrow>
             (case db_faculty db facultyIdArg of
                None \<Rightarrow>
                  Inl \<lparr> message = ''Faculty with ID '' @ facultyIdArg @ '' does not exist.'',
                        statusCode = 404 \<rparr>
              | Some facultyExists \<Rightarrow>
                  if fac_isDeleted facultyExists
                  then Inl \<lparr> message = ''Faculty '' @ dquote @ fac_name facultyExists @ dquote
                                         @ '' has been deleted.'',
                             statusCode = 404 \<rparr>
                  else Inl \<lparr> message = ''Faculty '' @ dquote @ fac_name facultyExists @ dquote
                                         @ '' has no feedback data matching the selected filters.'',
                             statusCode = 404 \<rparr>)
         | firstSnapshot # _ \<Rightarrow>
             (let faculty = db_faculty db facultyIdArg;
                  allScores = parsed_scores h positive snapshots;
                  allFacultySnapshots =
                    findMany (allFacultySnapshots_whereClause academicYearIdArg)
                      (db_feedbackSnapshot db);
                  ranked = rankedFaculty h allFacultySnapshots;
                  rank = findIndex (\<lambda>f. rf_facultyId f = facultyIdArg) ranked + 1;
                  totalFaculty = length ranked
              in Inr \<lparr> fd_id = facultyId firstSnapshot,
                       fd_name = facultyName firstSnapshot,
                       fd_abbreviation = facultyAbbreviation firstSnapshot,
                       fd_designation =
                         (case faculty of
                            None \<Rightarrow> []
                          | Some f \<Rightarrow>
                              if truthy (fac_designation f) then the (fac_designation f)
                              else []),
                       fd_overallRating =
                         (if length allScores > 0 then mean2 allScores else Fin 0),
                       fd_totalResponses = length allScores,
                       fd_rank = rank,
                       fd_totalFaculty = totalFaculty \<rparr>))"

subsection \<open>\<open>getDivisionDetailedAnalytics\<close>\<close>

record breakdown_entry =
  be_subjectId :: string
  be_subjectName :: string
  be_subjectAbbreviation :: string
  be_lectureScores :: "jsnum list"
  be_labScores :: "jsnum list"

record SubjectBreakdownRow =
  sb_subjectId :: string
  sb_subjectName :: string
  sb_subjectAbbreviation :: string
  sb_lectureRating :: "jsnum option"
  sb_labRating :: "jsnum option"
  sb_totalRating :: jsnum
  sb_responses :: nat

record DivisionDetailedAnalytics =
  dd_id :: string
  dd_name :: string
  dd_departmentName :: string
  dd_semesterNumber :: int
  dd_overallRating :: jsnum
  dd_totalResponses :: nat
  dd_subjectBreakdown :: "SubjectBreakdownRow list"

definition getDivisionDetailedAnalytics_whereClause ::
  "string \<Rightarrow> string option \<Rightarrow> snapshot \<Rightarrow> bool" where
  "getDivisionDetailedAnalytics_whereClause divisionIdArg academicYearIdArg s =
     (divisionId s = divisionIdArg
      \<and> \<not> isDeleted s \<and> \<not> formIsDeleted s \<and> \<not> questionIsDeleted s
      \<and> \<not> semesterIsDeleted s \<and> \<not> divisionIsDeleted s \<and> \<not> subjectIsDeleted s
      \<and> \<not> departmentIsDeleted s \<and> \<not> academicYearIsDeleted s
      \<and> optional_eq academicYearIdArg (academicYearId s))"

definition subjectBreakdown_step ::
  "host \<Rightarrow> (string \<times> breakdown_entry) list \<Rightarrow> snapshot \<Rightarrow> (string \<times> breakdown_entry) list" where
  "subjectBreakdown_step h subjectMap s =
     (let score = score_of h (responseValue s) in
      if skipped score then subjectMap
      else
        let lectureType = deriveLectureType_division s
        in map_upsert (subjectId s)
             \<lparr> be_subjectId = subjectId s,
               be_subjectName = subjectName s,
               be_subjectAbbreviation = subjectAbbreviation s,
               be_lectureScores = [],
               be_labScores = [] \<rparr>
             (\<lambda>subject.
                if lectureType = LECTURE
                then subject\<lparr> be_lectureScores := be_lectureScores subject @ [the score] \<rparr>
                else subject\<lparr> be_labScores := be_labScores subject @ [the score] \<rparr>)
             subjectMap)"

definition subjectBreakdown_row :: "breakdown_entry \<Rightarrow> SubjectBreakdownRow" where
  "subjectBreakdown_row s =
     (let allSubjectScores = be_lectureScores s @ be_labScores s
      in \<lparr> sb_subjectId = be_subjectId s,
           sb_subjectName = be_subjectName s,
           sb_subjectAbbreviation = be_subjectAbbreviation s,
           sb_lectureRating =
             (if length (be_lectureScores s) > 0 then Some (mean2 (be_lectureScores s))
              else None),
           sb_labRating =
             (if length (be_labScores s) > 0 then Some (mean2 (be_labScores s)) else None),
           sb_totalRating =
             (if length allSubjectScores > 0 then mean2 allSubjectScores else Fin 0),
           sb_responses = length allSubjectScores \<rparr>)"

definition getDivisionDetailedAnalytics ::
  "host \<Rightarrow> database \<Rightarrow> string \<Rightarrow> string option \<Rightarrow> AppError + DivisionDetailedAnalytics" where
  "getDivisionDetailedAnalytics h db divisionIdArg academicYearIdArg =
     (let snapshots =
            findMany (getDivisionDetailedAnalytics_whereClause divisionIdArg academicYearIdArg)
              (db_feedbackSnapshot db)
      in case snapshots of
           [] \<Rightarrow>
             (case db_division db divisionIdArg of
                None \<Rightarrow>
                  Inl \<lparr> message = ''Division with ID '' @ divisionIdArg @ '' does not exist.'',
                        statusCode = 404 \<rparr>
              | Some divisionExists \<Rightarrow>
                  if ent_isDeleted divisionExists
                  then Inl \<lparr> message = ''Division '' @ dquote @ ent_name divisionExists @ dquote
                                         @ '' has been deleted.'',
                             statusCode = 404 \<rparr>
                  else Inl \<lparr> message = ''Division '' @ dquote @ ent_name divisionExists @ dquote
                                         @ '' has no feedback data matching the selected filters.'',
                             statusCode = 404 \<rparr>)
         | firstSnapshot # _ \<Rightarrow>
             (let allScores = parsed_scores h positive snapshots;
                  subjectBreakdown =
                    map subjectBreakdown_row
                      (map snd (foldl (subjectBreakdown_step h) [] snapshots))
              in Inr \<lparr> dd_id = divisionId firstSnapshot,
                       dd_name = divisionName firstSnapshot,
                       dd_departmentName = departmentName firstSnapshot,
                       dd_semesterNumber = semesterNumber firstSnapshot,
                       dd_overallRating =
                         (if length allScores > 0 then mean2 allScores else Fin 0),
                       dd_totalResponses = length allScores,
                       dd_subjectBreakdown = subjectBreakdown \<rparr>))"

section \<open>Auxiliary notions for the properties\<close>

text \<open>The numbers that are at least zero, and those above zero (infinity included).\<close>

definition js_nonneg :: "jsnum \<Rightarrow> bool" where
  "js_nonneg n = (case n of Fin q \<Rightarrow> 0 \<le> q | PosInf \<Rightarrow> True | _ \<Rightarrow> False)"


text \<open>
  A host for the concrete examples: its \<open>parseFloat\<close> and \<open>parseInt\<close> agree with
  ECMAScript on the strings used in them, its \<open>JSON.parse\<close> rejects every string, its
  \<open>localeCompare\<close> compares code units.
\<close>

definition sample_parseFloat :: "string \<Rightarrow> jsnum" where
  "sample_parseFloat s =
     (if s = ''Infinity'' then PosInf else if s = ''0'' then Fin 0
      else if s = ''4.5'' then Fin (9 / 2) else NaN)"

definition sample_parseInt :: "string \<Rightarrow> jsnum" where
  "sample_parseInt s = (if s = ''1'' then Fin 1 else if s = ''2'' then Fin 2 else NaN)"

definition sample_host :: host where
  "sample_host =
     \<lparr> parseFloat = sample_parseFloat,
       JSON_parse = (\<lambda>s. Throws SyntaxError),
       localeCompare = (\<lambda>a b. if a < b then - 1 else if a = b then 0 else 1),
       parseInt = sample_parseInt \<rparr>"

definition upsert_fold ::
  "('s \<Rightarrow> bool) \<Rightarrow> ('s \<Rightarrow> 'k) \<Rightarrow> ('s \<Rightarrow> 'v) \<Rightarrow> ('s \<Rightarrow> 'v \<Rightarrow> 'v)
     \<Rightarrow> ('k \<times> 'v) list \<Rightarrow> 's list \<Rightarrow> ('k \<times> 'v) list" where
  "upsert_fold P key init upd m xs =
     foldl (\<lambda>m s. if P s then map_upsert (key s) (init s) (upd s) m else m) m xs"

definition counted :: "host \<Rightarrow> snapshot \<Rightarrow> bool" where
  "counted h s = positive (score_of h (responseValue s))"

definition the_score :: "host \<Rightarrow> snapshot \<Rightarrow> jsnum" where
  "the_score h s = the (score_of h (responseValue s))"

definition faculty_init :: "snapshot \<Rightarrow> faculty_entry" where
  "faculty_init snapshot =
     \<lparr> fe_facultyId = facultyId snapshot,
       fe_facultyName = facultyName snapshot,
       fe_facultyAbbreviation = facultyAbbreviation snapshot,
       fe_designation =
         (if truthy (facultyDesignation snapshot)
          then the (facultyDesignation snapshot) else ''N/A''),
       fe_scores = [],
       fe_subjects = {},
       fe_divisions = {} \<rparr>"

definition faculty_upd :: "host \<Rightarrow> snapshot \<Rightarrow> faculty_entry \<Rightarrow> faculty_entry" where
  "faculty_upd h snapshot faculty =
     faculty\<lparr> fe_scores := fe_scores faculty @ [the_score h snapshot],
              fe_subjects := insert (subjectId snapshot) (fe_subjects faculty),
              fe_divisions := insert (divisionId snapshot) (fe_divisions faculty) \<rparr>"

fun first_seen :: "'a list \<Rightarrow> 'a list" where
  "first_seen [] = []"
| "first_seen (x # xs) = x # filter (\<lambda>y. y \<noteq> x) (first_seen xs)"

definition blank_snapshot :: snapshot where
  "blank_snapshot =
     \<lparr> subjectId = ''sub1'', subjectName = ''Algebra'', subjectAbbreviation = ''ALG'',
       subjectCode = ''M101'', facultyId = ''f1'', facultyName = ''Ada'',
       facultyAbbreviation = ''AD'', facultyDesignation = None,
       divisionId = ''d1'', divisionName = ''A'', departmentId = ''dep1'',
       departmentName = ''Maths'', semesterId = ''sem1'', semesterNumber = 1,
       academicYearId = ''y1'', academicYearString = ''2024-25'', studentId = Some ''st1'',
       questionCategoryName = None, questionBatch = None, batch = None,
       responseValue = JNull, lectureType = LECTURE,
       isDeleted = False, formDeleted = False, formIsDeleted = False,
       questionIsDeleted = False, semesterIsDeleted = False, divisionIsDeleted = False,
       subjectIsDeleted = False, departmentIsDeleted = False,
       academicYearIsDeleted = False \<rparr>"






definition scenario_record :: "string \<Rightarrow> LectureType \<Rightarrow> rat \<Rightarrow> snapshot" where
  "scenario_record category allocated q =
     blank_snapshot\<lparr> subjectId := ''S'', questionCategoryName := Some category,
                      lectureType := allocated, responseValue := JNum (Fin q) \<rparr>"

definition scenario_all_lecture :: "snapshot list" where
  "scenario_all_lecture =
     [scenario_record ''Lab Performance'' LECTURE 4,
      scenario_record ''Lab Performance'' LECTURE 4,
      scenario_record ''Theory'' LECTURE 3]"

definition scenario_allocated :: "snapshot list" where
  "scenario_allocated =
     [scenario_record ''Lab Performance'' LAB 4,
      scenario_record ''Lab Performance'' LAB 4,
      scenario_record ''Theory'' LECTURE 3]"

text \<open>The figures of a row that the scenario is about.\<close>

definition subject_figures ::
  "SubjectRatingAggregated
     \<Rightarrow> string \<times> jsnum option \<times> jsnum option \<times> jsnum \<times> nat \<times> nat \<times> nat" where
  "subject_figures r =
     (sr_subjectId r, sr_labRating r, sr_lectureRating r, sr_overallRating r,
      sr_labResponses r, sr_lectureResponses r, sr_totalResponses r)"

text \<open>The three messages of a detail builder for an entity kind.\<close>

definition does_not_exist :: "string \<Rightarrow> string \<Rightarrow> string" where
  "does_not_exist kind ident = kind @ '' with ID '' @ ident @ '' does not exist.''"

definition has_been_deleted :: "string \<Rightarrow> string \<Rightarrow> string" where
  "has_been_deleted kind name = kind @ '' '' @ dquote @ name @ dquote @ '' has been deleted.''"

definition has_no_data :: "string \<Rightarrow> string \<Rightarrow> string" where
  "has_no_data kind name =
     kind @ '' '' @ dquote @ name @ dquote
       @ '' has no feedback data matching the selected filters.''"

text \<open>What a lookup of the entity shows: absent, deleted, or active.\<close>

definition not_found_message :: "string \<Rightarrow> string \<Rightarrow> (string \<times> bool) option \<Rightarrow> string" where
  "not_found_message kind ident found =
     (case found of
        None \<Rightarrow> does_not_exist kind ident
      | Some (name, deleted) \<Rightarrow>
          if deleted then has_been_deleted kind name else has_no_data kind name)"

definition lookup_db :: database where
  "lookup_db =
     \<lparr> db_feedbackSnapshot = [],
       db_semester = Map.empty,
       db_subject =
         [''s_del'' \<mapsto> \<lparr> ent_name = ''Physics'', ent_isDeleted = True \<rparr>,
          ''s_act'' \<mapsto> \<lparr> ent_name = ''Chemistry'', ent_isDeleted = False \<rparr>],
       db_faculty = Map.empty,
       db_division = Map.empty \<rparr>"

definition allFacultySnapshots :: "database \<Rightarrow> string option \<Rightarrow> snapshot list" where
  "allFacultySnapshots db academicYearIdArg =
     findMany (allFacultySnapshots_whereClause academicYearIdArg) (db_feedbackSnapshot db)"

definition ranked_faculties :: "host \<Rightarrow> snapshot list \<Rightarrow> string set" where
  "ranked_faculties h snapshots = facultyId ` {s \<in> set snapshots. counted h s}"


definition score_init :: "snapshot \<Rightarrow> score_entry" where
  "score_init s = \<lparr> sc_name = facultyName s, sc_scores = [] \<rparr>"

definition score_upd :: "host \<Rightarrow> snapshot \<Rightarrow> score_entry \<Rightarrow> score_entry" where
  "score_upd h s data = data\<lparr> sc_scores := sc_scores data @ [the_score h s] \<rparr>"

definition ranked_row :: "string \<times> score_entry \<Rightarrow> ranked_entry" where
  "ranked_row p =
     \<lparr> rf_facultyId = fst p,
       rf_avgRating = js_div (sum_scores (sc_scores (snd p))) (js_length (sc_scores (snd p))) \<rparr>"


definition zero_score_db :: database where
  "zero_score_db =
     \<lparr> db_feedbackSnapshot =
         [blank_snapshot\<lparr> facultyId := ''f1'', responseValue := JStr ''0'' \<rparr>,
          blank_snapshot\<lparr> facultyId := ''f2'', facultyName := ''Bob'',
                           responseValue := JNum (Fin 5) \<rparr>],
       db_semester = Map.empty, db_subject = Map.empty,
       db_faculty = [''f1'' \<mapsto> \<lparr> fac_name = ''Ada'', fac_isDeleted = False,
                                    fac_designation = Some ''Professor'' \<rparr>],
       db_division = Map.empty \<rparr>"

text \<open>The positive scores, in input order, of the records that satisfy a condition.\<close>

definition scores_of :: "host \<Rightarrow> (snapshot \<Rightarrow> bool) \<Rightarrow> snapshot list \<Rightarrow> jsnum list" where
  "scores_of h P snapshots = map (the_score h) (filter (\<lambda>s. counted h s \<and> P s) snapshots)"

text \<open>
  The mean convention: the sum over the count, rounded to two decimals, for a
  non-empty list of scores, and a default for the empty one.
\<close>

definition mean_or :: "'a \<Rightarrow> (jsnum \<Rightarrow> 'a) \<Rightarrow> jsnum list \<Rightarrow> 'a" where
  "mean_or dflt wrap scores =
     (if scores = [] then dflt
      else wrap (Number_toFixed2 (js_div (sum_scores scores) (js_length scores))))"

definition subject_init :: "snapshot \<Rightarrow> subject_entry" where
  "subject_init snapshot =
     \<lparr> se_subjectId = subjectId snapshot,
       se_subjectName = subjectName snapshot,
       se_subjectAbbreviation = subjectAbbreviation snapshot,
       se_subjectCode = subjectCode snapshot,
       se_lectureScores = [],
       se_labScores = [],
       se_faculties = {},
       se_divisions = {} \<rparr>"

definition subject_upd :: "host \<Rightarrow> snapshot \<Rightarrow> subject_entry \<Rightarrow> subject_entry" where
  "subject_upd h snapshot subject =
     (if lectureType snapshot = LECTURE
      then subject\<lparr> se_lectureScores := se_lectureScores subject @ [the_score h snapshot] \<rparr>
      else subject\<lparr> se_labScores := se_labScores subject @ [the_score h snapshot] \<rparr>)
     \<lparr> se_faculties := insert (facultyId snapshot) (se_faculties subject),
       se_divisions := insert (divisionId snapshot) (se_divisions subject) \<rparr>"

definition division_init :: "snapshot \<Rightarrow> division_entry" where
  "division_init snapshot =
     \<lparr> de_divisionId = divisionId snapshot,
       de_divisionName = divisionName snapshot,
       de_departmentName = departmentName snapshot,
       de_semesterNumber = semesterNumber snapshot,
       de_scores = [],
       de_faculties = {},
       de_subjects = {} \<rparr>"

definition division_upd :: "host \<Rightarrow> snapshot \<Rightarrow> division_entry \<Rightarrow> division_entry" where
  "division_upd h snapshot division =
     division\<lparr> de_scores := de_scores division @ [the_score h snapshot],
               de_faculties := insert (facultyId snapshot) (de_faculties division),
               de_subjects := insert (subjectId snapshot) (de_subjects division) \<rparr>"

definition year_init :: "snapshot \<Rightarrow> year_entry" where
  "year_init snapshot =
     \<lparr> ye_academicYearId = academicYearId snapshot,
       ye_academicYearString = academicYearString snapshot,
       ye_scores = [],
       ye_departments = {},
       ye_divisions = {} \<rparr>"

definition year_upd :: "host \<Rightarrow> snapshot \<Rightarrow> year_entry \<Rightarrow> year_entry" where
  "year_upd h snapshot year =
     year\<lparr> ye_scores := ye_scores year @ [the_score h snapshot],
           ye_departments := insert (departmentId snapshot) (ye_departments year),
           ye_divisions := insert (divisionId snapshot) (ye_divisions year) \<rparr>"






definition zero_response :: snapshot where
  "zero_response =
     blank_snapshot\<lparr> facultyId := ''f0'', divisionId := ''d0'', studentId := Some ''st0'',
                      responseValue := JStr ''0'' \<rparr>"

definition four_response :: snapshot where
  "four_response = blank_snapshot\<lparr> responseValue := JNum (Fin 4) \<rparr>"

definition legacy_db :: database where
  "legacy_db =
     \<lparr> db_feedbackSnapshot = [zero_response, four_response],
       db_semester =
         [''sem1'' \<mapsto> \<lparr> sem_semesterNumber = 1, sem_academicYearId = ''y1'',
                          sem_isDeleted = False \<rparr>],
       db_subject = Map.empty, db_faculty = Map.empty, db_division = Map.empty \<rparr>"



section \<open>Properties of the score parser\<close>

lemma parseResponseValueToScore_Returns:
  "parseResponseValueToScore h v = Returns (score_of h v)"
  by (cases v; cases "JSON_parse h (case v of JStr s \<Rightarrow> s | _ \<Rightarrow> [])")
     (auto simp: parseResponseValueToScore_def score_of_def try_catch_def Let_def
           split: option.splits jsval.splits outcome.splits)

lemma score_of_not_NaN: "score_of h v \<noteq> Some NaN"
  by (cases v; cases "JSON_parse h (case v of JStr s \<Rightarrow> s | _ \<Rightarrow> [])")
     (auto simp: parseResponseValueToScore_def score_of_def try_catch_def Let_def isNaN_def
           split: option.splits jsval.splits outcome.splits)


text \<open>
  C4 (as amended). \<open>parseResponseValueToScore\<close> returns for every input and never throws;
  what it returns is \<open>null\<close> or a number other than \<open>NaN\<close>: a finite number or an
  infinity.
\<close>

theorem parseResponseValueToScore_total:
  "\<exists>r. parseResponseValueToScore h v = Returns r
       \<and> (r = None \<or> (\<exists>n. r = Some n \<and> (isFinite n \<or> n = PosInf \<or> n = NegInf)))"
proof -
  have "score_of h v \<noteq> Some NaN" by (rule score_of_not_NaN)
  then have "score_of h v = None
      \<or> (\<exists>n. score_of h v = Some n \<and> (isFinite n \<or> n = PosInf \<or> n = NegInf))"
    by (cases "score_of h v") (auto simp: isFinite_def split: jsnum.splits)
  then show ?thesis
    using parseResponseValueToScore_Returns [of h v] by simp
qed

text \<open>
  C4 as stated fails: the string \<open>"Infinity"\<close> and the number \<open>Infinity\<close> pass the
  \<open>!isNaN\<close> test of the last line and are returned.
\<close>

theorem parseResponseValueToScore_infinite_counterexample:
  "parseResponseValueToScore sample_host (JStr ''Infinity'') = Returns (Some PosInf)
   \<and> parseResponseValueToScore sample_host (JNum PosInf) = Returns (Some PosInf)
   \<and> \<not> isFinite PosInf"
  by (simp add: parseResponseValueToScore_def sample_host_def sample_parseFloat_def
        isNaN_def isFinite_def)

section \<open>Numbers and order\<close>


lemma js_lt_trans: "js_lt a b \<Longrightarrow> js_lt b c \<Longrightarrow> js_lt a c"
  by (cases a; cases b; cases c) auto

lemma js_lt_irrefl: "\<not> js_lt a a"
  by (cases a) auto

lemma js_lt_total: "a \<noteq> NaN \<Longrightarrow> b \<noteq> NaN \<Longrightarrow> js_lt a b \<or> a = b \<or> js_lt b a"
  by (cases a; cases b) auto


lemma js_le_refl: "a \<noteq> NaN \<Longrightarrow> js_le a a"
  by (simp add: js_le_def js_lt_irrefl)


lemma js_nonneg_not_NaN: "js_nonneg n \<Longrightarrow> n \<noteq> NaN"
  by (auto simp: js_nonneg_def)


lemma skipped_iff_not_positive: "sc \<noteq> Some NaN \<Longrightarrow> skipped sc = (\<not> positive sc)"
  by (cases sc) (auto simp: skipped_def positive_def js_le_def js_gt_def)









subsection \<open>Sorting\<close>


lemma mset_sort_insert: "mset (sort_insert cmp x ys) = add_mset x (mset ys)"
  by (induction ys) auto

lemma mset_js_sort: "mset (js_sort cmp xs) = mset xs"
  by (induction xs) (auto simp: js_sort_def mset_sort_insert)








section \<open>Folding records into a keyed map\<close>

lemma upsert_fold_Nil [simp]: "upsert_fold P key init upd m [] = m"
  by (simp add: upsert_fold_def)

lemma upsert_fold_Cons [simp]:
  "upsert_fold P key init upd m (s # xs) =
     upsert_fold P key init upd
       (if P s then map_upsert (key s) (init s) (upd s) m else m) xs"
  by (simp add: upsert_fold_def)

lemma keys_map_upsert:
  "map fst (map_upsert k i u m) = (if k \<in> fst ` set m then map fst m else map fst m @ [k])"
  by (induction m) force+


lemma keyset_map_upsert: "fst ` set (map_upsert k i u m) = insert k (fst ` set m)"
proof (induction m)
  case Nil
  show ?case by simp
next
  case (Cons p m)
  obtain k' v where p: "p = (k', v)" by (cases p)
  show ?case using Cons by (cases "k = k'") (auto simp: p)
qed

lemma keys_upsert_fold:
  "fst ` set (upsert_fold P key init upd m xs) = fst ` set m \<union> key ` {s \<in> set xs. P s}"
proof (induction xs arbitrary: m)
  case Nil
  show ?case by simp
next
  case (Cons s xs)
  show ?case
  proof (cases "P s")
    case True
    have "fst ` set (upsert_fold P key init upd m (s # xs)) =
            insert (key s) (fst ` set m) \<union> key ` {s \<in> set xs. P s}"
      using True Cons [of "map_upsert (key s) (init s) (upd s) m"]
      by (simp add: keyset_map_upsert)
    then show ?thesis using True by auto
  next
    case False
    then show ?thesis using Cons [of m] by auto
  qed
qed

lemma distinct_upsert_fold:
  "distinct (map fst m) \<Longrightarrow> distinct (map fst (upsert_fold P key init upd m xs))"
proof (induction xs arbitrary: m)
  case Nil
  then show ?case by simp
next
  case (Cons s xs)
  have "distinct (map fst (map_upsert (key s) (init s) (upd s) m))"
    using Cons.prems by (simp add: keys_map_upsert)
  then show ?case using Cons by simp
qed



lemma upsert_fold_filter:
  "upsert_fold P key init upd m (filter P xs) = upsert_fold P key init upd m xs"
  by (induction xs arbitrary: m) auto

lemma skipped_score_of: "skipped (score_of h v) = (\<not> positive (score_of h v))"
  by (rule skipped_iff_not_positive) (rule score_of_not_NaN)


section \<open>The faculty ranking\<close>

lemma faculty_fold:
  "foldl (aggregateFacultyPerformance_step h) m xs =
     upsert_fold (counted h) facultyId faculty_init (faculty_upd h) m xs"
proof -
  have "aggregateFacultyPerformance_step h =
          (\<lambda>m s. if counted h s then map_upsert (facultyId s) (faculty_init s) (faculty_upd h s) m
                  else m)"
    by (intro ext)
       (simp add: aggregateFacultyPerformance_step_def Let_def skipped_score_of counted_def
          faculty_init_def faculty_upd_def [abs_def] the_score_def)
  then show ?thesis by (simp add: upsert_fold_def)
qed




lemma length_assign_ranks: "length (assign_ranks xs) = length xs"
  by (simp add: assign_ranks_def)

lemma assign_ranks_nth:
  "i < length xs \<Longrightarrow> assign_ranks xs ! i = (xs ! i)\<lparr> fp_rank := i + 1 \<rparr>"
  by (simp add: assign_ranks_def nth_enumerate_eq)



lemma assign_ranks_facultyId:
  "map fp_facultyId (assign_ranks xs) = map fp_facultyId xs"
  by (rule nth_equalityI) (simp_all add: length_assign_ranks assign_ranks_nth)



lemma set_first_seen [simp]: "set (first_seen xs) = set xs"
  by (induction xs) auto














section \<open>The lecture/lab classification\<close>






section \<open>The subject rollup on three records\<close>

lemma scenario_means:
  "mean2 [Fin 4, Fin 4] = Fin 4" "mean2 [Fin 3] = Fin 3"
  "mean2 [Fin 3, Fin 4, Fin 4] = Fin (367 / 100)"
  by code_simp+

lemma js_sort_single: "js_sort cmp [x] = [x]"
  by (simp add: js_sort_def)

text \<open>
  C3 as stated fails: \<open>aggregateSubjectRatings\<close> never reads \<open>questionCategoryName\<close>. Three
  records for \<open>S\<close> with the categories and scores of the scenario, all allocated as
  lectures, give no lab rating and three lecture responses.
\<close>

theorem aggregateSubjectRatings_scenario_counterexample:
  "map subject_figures (aggregateSubjectRatings sample_host scenario_all_lecture) =
     [(''S'', None, Some (Fin (367 / 100)), Fin (367 / 100), 0, 3, 3)]"
  by code_simp

text \<open>
  C3 (as amended). Three records for one subject \<open>S\<close>, two with \<open>lectureType = LAB\<close> and
  score 4 and one with \<open>lectureType = LECTURE\<close> and score 3, in any order (the two lab
  records are interchangeable, so three arrangements cover all six), give one row for
  \<open>S\<close> with lab rating 4, lecture rating 3, overall rating 3.67 and the counts 2, 1, 3.
\<close>

theorem aggregateSubjectRatings_scenario:
  assumes "subjectId a = S" "subjectId b = S" "subjectId c = S"
    and "lectureType a = LAB" "lectureType b = LAB" "lectureType c = LECTURE"
    and "score_of h (responseValue a) = Some (Fin 4)"
    and "score_of h (responseValue b) = Some (Fin 4)"
    and "score_of h (responseValue c) = Some (Fin 3)"
    and "snapshots \<in> {[a, b, c], [a, c, b], [c, a, b]}"
  shows "map subject_figures (aggregateSubjectRatings h snapshots) =
           [(S, Some (Fin 4), Some (Fin 3), Fin (367 / 100), 2, 1, 3)]"
proof -
  have sk: "\<not> skipped (Some (Fin 4))" "\<not> skipped (Some (Fin 3))"
    by (simp_all add: skipped_def js_le_def)
  have "map subject_figures (aggregateSubjectRatings h xs) =
          [(S, Some (Fin 4), Some (Fin 3), Fin (367 / 100), 2, 1, 3)]"
    if "xs = [a, b, c] \<or> xs = [a, c, b] \<or> xs = [c, a, b]" for xs
    using that assms(1-9) sk
    by (auto simp: aggregateSubjectRatings_def aggregateSubjectRatings_step_def
          aggregateSubjectRatings_row_def subject_figures_def js_sort_single scenario_means
          Let_def)
  then show ?thesis using assms(10) by blast
qed

lemma scenario_allocated_scores:
  "score_of sample_host (JNum (Fin 4)) = Some (Fin 4)"
  "score_of sample_host (JNum (Fin 3)) = Some (Fin 3)"
  by (simp_all add: score_of_def parseResponseValueToScore_def isNaN_def)

text \<open>
  The scenario with the lab records allocated as labs.
\<close>

theorem aggregateSubjectRatings_scenario_witness:
  "map subject_figures (aggregateSubjectRatings sample_host scenario_allocated) =
     [(''S'', Some (Fin 4), Some (Fin 3), Fin (367 / 100), 2, 1, 3)]"
  by (rule aggregateSubjectRatings_scenario
        [of "scenario_record ''Lab Performance'' LAB 4" "''S''"
            "scenario_record ''Lab Performance'' LAB 4"
            "scenario_record ''Theory'' LECTURE 3" sample_host])
     (simp_all add: scenario_record_def scenario_allocated_def scenario_allocated_scores)

section \<open>Lookups that find nothing\<close>

lemma messages_distinct:
  "does_not_exist kind ident \<noteq> has_been_deleted kind name"
  "does_not_exist kind ident \<noteq> has_no_data kind name'"
  "has_been_deleted kind name \<noteq> has_no_data kind name'"
proof -
  show "does_not_exist kind ident \<noteq> has_been_deleted kind name"
    by (simp add: does_not_exist_def has_been_deleted_def dquote_def)
  show "does_not_exist kind ident \<noteq> has_no_data kind name'"
    by (simp add: does_not_exist_def has_no_data_def dquote_def)
  have "rev (has_been_deleted kind name) \<noteq> rev (has_no_data kind name')"
    by (simp add: has_been_deleted_def has_no_data_def)
  then show "has_been_deleted kind name \<noteq> has_no_data kind name'"
    by auto
qed

text \<open>
  C7. When its query finds no record, each detail builder fails with status 404 and
  one of three messages: the entity does not exist (with its id), it has been deleted
  (with its name), or it has no matching feedback data (with its name). For every id
  and names the three texts are pairwise different.
\<close>

theorem detail_not_found:
  "(findMany (getSubjectDetailedAnalytics_whereClause ident ay sem dep) (db_feedbackSnapshot db) = []
      \<longrightarrow> getSubjectDetailedAnalytics h db ident ay sem dep =
            Inl \<lparr> message =
                    not_found_message ''Subject'' ident
                      (map_option (\<lambda>r. (ent_name r, ent_isDeleted r)) (db_subject db ident)),
                  statusCode = 404 \<rparr>)
   \<and> (findMany (getFacultyDetailedAnalytics_whereClause ident ay) (db_feedbackSnapshot db) = []
      \<longrightarrow> getFacultyDetailedAnalytics h db ident ay =
            Inl \<lparr> message =
                    not_found_message ''Faculty'' ident
                      (map_option (\<lambda>r. (fac_name r, fac_isDeleted r)) (db_faculty db ident)),
                  statusCode = 404 \<rparr>)
   \<and> (findMany (getDivisionDetailedAnalytics_whereClause ident ay) (db_feedbackSnapshot db) = []
      \<longrightarrow> getDivisionDetailedAnalytics h db ident ay =
            Inl \<lparr> message =
                    not_found_message ''Division'' ident
                      (map_option (\<lambda>r. (ent_name r, ent_isDeleted r)) (db_division db ident)),
                  statusCode = 404 \<rparr>)
   \<and> does_not_exist kind ident \<noteq> has_been_deleted kind name
   \<and> does_not_exist kind ident \<noteq> has_no_data kind name'
   \<and> has_been_deleted kind name \<noteq> has_no_data kind name'"
proof -
  have "findMany (getSubjectDetailedAnalytics_whereClause ident ay sem dep) (db_feedbackSnapshot db) = []
      \<longrightarrow> getSubjectDetailedAnalytics h db ident ay sem dep =
            Inl \<lparr> message =
                    not_found_message ''Subject'' ident
                      (map_option (\<lambda>r. (ent_name r, ent_isDeleted r)) (db_subject db ident)),
                  statusCode = 404 \<rparr>"
    by (simp add: getSubjectDetailedAnalytics_def not_found_message_def does_not_exist_def
          has_been_deleted_def has_no_data_def split: option.splits)
  moreover have "findMany (getFacultyDetailedAnalytics_whereClause ident ay) (db_feedbackSnapshot db) = []
      \<longrightarrow> getFacultyDetailedAnalytics h db ident ay =
            Inl \<lparr> message =
                    not_found_message ''Faculty'' ident
                      (map_option (\<lambda>r. (fac_name r, fac_isDeleted r)) (db_faculty db ident)),
                  statusCode = 404 \<rparr>"
    by (simp add: getFacultyDetailedAnalytics_def not_found_message_def does_not_exist_def
          has_been_deleted_def has_no_data_def split: option.splits)
  moreover have "findMany (getDivisionDetailedAnalytics_whereClause ident ay) (db_feedbackSnapshot db) = []
      \<longrightarrow> getDivisionDetailedAnalytics h db ident ay =
            Inl \<lparr> message =
                    not_found_message ''Division'' ident
                      (map_option (\<lambda>r. (ent_name r, ent_isDeleted r)) (db_division db ident)),
                  statusCode = 404 \<rparr>"
    by (simp add: getDivisionDetailedAnalytics_def not_found_message_def does_not_exist_def
          has_been_deleted_def has_no_data_def split: option.splits)
  ultimately show ?thesis
    using messages_distinct by blast
qed

text \<open>
  The three cases for a subject, and the first case for a faculty and a division.
\<close>

theorem detail_not_found_witness:
  "getSubjectDetailedAnalytics sample_host lookup_db ''s_none'' None None None =
     Inl \<lparr> message = ''Subject with ID s_none does not exist.'', statusCode = 404 \<rparr>
   \<and> getSubjectDetailedAnalytics sample_host lookup_db ''s_del'' None None None =
       Inl \<lparr> message = ''Subject '' @ dquote @ ''Physics'' @ dquote @ '' has been deleted.'',
             statusCode = 404 \<rparr>
   \<and> getSubjectDetailedAnalytics sample_host lookup_db ''s_act'' None None None =
       Inl \<lparr> message = ''Subject '' @ dquote @ ''Chemistry'' @ dquote
                         @ '' has no feedback data matching the selected filters.'',
             statusCode = 404 \<rparr>
   \<and> getFacultyDetailedAnalytics sample_host lookup_db ''f_none'' None =
       Inl \<lparr> message = ''Faculty with ID f_none does not exist.'', statusCode = 404 \<rparr>
   \<and> getDivisionDetailedAnalytics sample_host lookup_db ''d_none'' None =
       Inl \<lparr> message = ''Division with ID d_none does not exist.'', statusCode = 404 \<rparr>"
  using detail_not_found [of "''s_none''" None None None lookup_db sample_host]
    detail_not_found [of "''s_del''" None None None lookup_db sample_host]
    detail_not_found [of "''s_act''" None None None lookup_db sample_host]
    detail_not_found [of "''f_none''" None None None lookup_db sample_host]
    detail_not_found [of "''d_none''" None None None lookup_db sample_host]
  by (simp add: lookup_db_def findMany_def not_found_message_def does_not_exist_def
        has_been_deleted_def has_no_data_def)

section \<open>The rank of one faculty among all\<close>

lemma score_fold:
  "foldl (facultyScoreMap_step h) m xs =
     upsert_fold (counted h) facultyId score_init (score_upd h) m xs"
proof -
  have "facultyScoreMap_step h =
          (\<lambda>m s. if counted h s then map_upsert (facultyId s) (score_init s) (score_upd h s) m
                  else m)"
    by (intro ext)
       (simp add: facultyScoreMap_step_def Let_def skipped_score_of counted_def
          score_init_def score_upd_def [abs_def] the_score_def)
  then show ?thesis by (simp add: upsert_fold_def)
qed



lemma rankedFaculty_alt:
  "rankedFaculty h xs =
     js_sort (\<lambda>a b. js_sub (rf_avgRating b) (rf_avgRating a))
       (map ranked_row (foldl (facultyScoreMap_step h) [] xs))"
proof -
  have "(\<lambda>(id, data).
           \<lparr> rf_facultyId = id,
             rf_avgRating = js_div (sum_scores (sc_scores data)) (js_length (sc_scores data)) \<rparr>)
        = ranked_row"
    by (auto simp: ranked_row_def fun_eq_iff)
  then show ?thesis by (simp add: rankedFaculty_def)
qed


lemma mset_map_js_sort: "mset (map f (js_sort cmp xs)) = mset (map f xs)"
  by (simp add: mset_js_sort)

lemma rankedFaculty_ids:
  "mset (map rf_facultyId (rankedFaculty h xs)) =
     mset (map fst (foldl (facultyScoreMap_step h) [] xs))"
proof -
  have "map rf_facultyId (map ranked_row m) = map fst m" for m :: "(string \<times> score_entry) list"
    by (simp add: ranked_row_def)
  then show ?thesis
    unfolding rankedFaculty_alt by (simp only: mset_map_js_sort)
qed

lemma rankedFaculty_distinct: "distinct (map rf_facultyId (rankedFaculty h xs))"
proof -
  have "distinct (map fst (foldl (facultyScoreMap_step h) [] xs))"
    unfolding score_fold by (rule distinct_upsert_fold) simp
  then show ?thesis
    using rankedFaculty_ids [of h xs] by (metis mset_eq_imp_distinct_iff)
qed

lemma rankedFaculty_set:
  "set (map rf_facultyId (rankedFaculty h xs)) = ranked_faculties h xs"
proof -
  have "set (map rf_facultyId (rankedFaculty h xs)) =
          set (map fst (foldl (facultyScoreMap_step h) [] xs))"
    using rankedFaculty_ids [of h xs] by (metis set_mset_mset)
  also have "\<dots> = ranked_faculties h xs"
    unfolding score_fold by (simp add: keys_upsert_fold ranked_faculties_def)
  finally show ?thesis .
qed

lemma rankedFaculty_length: "length (rankedFaculty h xs) = card (ranked_faculties h xs)"
proof -
  have "card (set (map rf_facultyId (rankedFaculty h xs))) =
          length (map rf_facultyId (rankedFaculty h xs))"
    by (rule distinct_card) (rule rankedFaculty_distinct)
  then show ?thesis by (simp only: rankedFaculty_set length_map)
qed



lemma findIndex_none: "\<forall>x\<in>set xs. \<not> p x \<Longrightarrow> findIndex p xs = - 1"
  by (induction xs) (simp_all add: Let_def)


lemma faculty_detail_fields:
  assumes "getFacultyDetailedAnalytics h db fid ay = Inr res"
  shows "fd_rank res =
           findIndex (\<lambda>f. rf_facultyId f = fid) (rankedFaculty h (allFacultySnapshots db ay)) + 1"
    and "fd_totalFaculty res = length (rankedFaculty h (allFacultySnapshots db ay))"
    and "fd_totalResponses res =
           length (parsed_scores h positive
                     (findMany (getFacultyDetailedAnalytics_whereClause fid ay)
                        (db_feedbackSnapshot db)))"
    and "fd_overallRating res =
           (let allScores =
                  parsed_scores h positive
                    (findMany (getFacultyDetailedAnalytics_whereClause fid ay)
                       (db_feedbackSnapshot db))
            in if length allScores > 0 then mean2 allScores else Fin 0)"
  using assms
  by (auto simp: getFacultyDetailedAnalytics_def allFacultySnapshots_def Let_def
        split: list.splits option.splits if_splits)

lemma faculty_detail_returns:
  assumes "findMany (getFacultyDetailedAnalytics_whereClause fid ay) (db_feedbackSnapshot db) \<noteq> []"
  shows "\<exists>res. getFacultyDetailedAnalytics h db fid ay = Inr res"
  using assms
  by (auto simp: getFacultyDetailedAnalytics_def Let_def split: list.splits)


lemma rankedFaculty_mem:
  "(\<exists>x\<in>set (rankedFaculty h xs). rf_facultyId x = f) = (f \<in> ranked_faculties h xs)"
proof -
  have eq: "ranked_faculties h xs = rf_facultyId ` set (rankedFaculty h xs)"
    using rankedFaculty_set [of h xs] by simp
  show ?thesis unfolding eq by blast
qed





section \<open>A faculty without a positive score\<close>

text \<open>
  C10. A faculty with a matching record but no record of positive score gets a result,
  not an error: overall rating 0, no responses, rank 0; it is not among the ranked
  faculties, whose number \<open>totalFaculty\<close> is.
\<close>

theorem faculty_without_positive_score:
  assumes "findMany (getFacultyDetailedAnalytics_whereClause fid ay) (db_feedbackSnapshot db) \<noteq> []"
    and "\<forall>s\<in>set (db_feedbackSnapshot db). facultyId s = fid \<longrightarrow> \<not> counted h s"
  shows "\<exists>res. getFacultyDetailedAnalytics h db fid ay = Inr res
           \<and> fd_overallRating res = Fin 0 \<and> fd_totalResponses res = 0 \<and> fd_rank res = 0
           \<and> fid \<notin> ranked_faculties h (allFacultySnapshots db ay)
           \<and> fd_totalFaculty res = card (ranked_faculties h (allFacultySnapshots db ay))"
proof -
  obtain res where res: "getFacultyDetailedAnalytics h db fid ay = Inr res"
    using faculty_detail_returns [OF assms(1)] by blast
  let ?wide = "allFacultySnapshots db ay"
  let ?target = "findMany (getFacultyDetailedAnalytics_whereClause fid ay) (db_feedbackSnapshot db)"
  have "\<forall>s\<in>set ?target. \<not> counted h s"
    using assms(2) by (auto simp: findMany_def getFacultyDetailedAnalytics_whereClause_def)
  then have "filter positive (map (\<lambda>s. score_of h (responseValue s)) ?target) = []"
    by (auto simp: filter_empty_conv counted_def)
  then have none: "parsed_scores h positive ?target = []"
    by (simp add: parsed_scores_def)
  have notin: "fid \<notin> ranked_faculties h ?wide"
    using assms(2) by (auto simp: ranked_faculties_def allFacultySnapshots_def findMany_def)
  then have "\<forall>x\<in>set (rankedFaculty h ?wide). rf_facultyId x \<noteq> fid"
    using rankedFaculty_mem [of h ?wide fid] by blast
  then have "findIndex (\<lambda>f. rf_facultyId f = fid) (rankedFaculty h ?wide) = - 1"
    by (rule findIndex_none)
  then have "fd_rank res = 0"
    using faculty_detail_fields(1) [OF res] by simp
  moreover have "fd_totalResponses res = 0" "fd_overallRating res = Fin 0"
    using faculty_detail_fields(3,4) [OF res] none by simp_all
  moreover have "fd_totalFaculty res = card (ranked_faculties h ?wide)"
    using faculty_detail_fields(2) [OF res] by (simp add: rankedFaculty_length)
  ultimately show ?thesis using res notin by blast
qed

lemma zero_score_value:
  "getFacultyDetailedAnalytics sample_host zero_score_db ''f1'' None =
     Inr \<lparr> fd_id = ''f1'', fd_name = ''Ada'', fd_abbreviation = ''AD'',
           fd_designation = ''Professor'', fd_overallRating = Fin 0,
           fd_totalResponses = 0, fd_rank = 0, fd_totalFaculty = 1 \<rparr>"
  by code_simp

lemma zero_score_premises:
  "findMany (getFacultyDetailedAnalytics_whereClause ''f1'' None)
     (db_feedbackSnapshot zero_score_db) \<noteq> []"
  "\<forall>s\<in>set (db_feedbackSnapshot zero_score_db). facultyId s = ''f1'' \<longrightarrow> \<not> counted sample_host s"
  by code_simp+

text \<open>
  A faculty whose only response is \<open>"0"\<close>, beside a faculty with a score of 5.
\<close>

theorem faculty_without_positive_score_witness:
  "findMany (getFacultyDetailedAnalytics_whereClause ''f1'' None)
     (db_feedbackSnapshot zero_score_db) \<noteq> []
   \<and> filter (\<lambda>s. facultyId s = ''f1'' \<and> counted sample_host s)
         (db_feedbackSnapshot zero_score_db) = []
   \<and> getFacultyDetailedAnalytics sample_host zero_score_db ''f1'' None =
       Inr \<lparr> fd_id = ''f1'', fd_name = ''Ada'', fd_abbreviation = ''AD'',
             fd_designation = ''Professor'', fd_overallRating = Fin 0,
             fd_totalResponses = 0, fd_rank = 0, fd_totalFaculty = 1 \<rparr>
   \<and> ''f1'' \<notin> ranked_faculties sample_host (allFacultySnapshots zero_score_db None)
   \<and> card (ranked_faculties sample_host (allFacultySnapshots zero_score_db None)) = 1"
proof -
  obtain res where res:
    "getFacultyDetailedAnalytics sample_host zero_score_db ''f1'' None = Inr res"
    and notin: "''f1'' \<notin> ranked_faculties sample_host (allFacultySnapshots zero_score_db None)"
    and total: "fd_totalFaculty res =
                  card (ranked_faculties sample_host (allFacultySnapshots zero_score_db None))"
    using faculty_without_positive_score [OF zero_score_premises] by blast
  have "res = \<lparr> fd_id = ''f1'', fd_name = ''Ada'', fd_abbreviation = ''AD'',
                 fd_designation = ''Professor'', fd_overallRating = Fin 0,
                 fd_totalResponses = 0, fd_rank = 0, fd_totalFaculty = 1 \<rparr>"
    using res by (simp only: zero_score_value sum.inject)
  then have "card (ranked_faculties sample_host (allFacultySnapshots zero_score_db None)) = 1"
    using total by simp
  moreover have "filter (\<lambda>s. facultyId s = ''f1'' \<and> counted sample_host s)
                   (db_feedbackSnapshot zero_score_db) = []"
    using zero_score_premises(2) by (simp add: filter_empty_conv)
  ultimately show ?thesis
    using zero_score_premises(1) zero_score_value notin by blast
qed



section \<open>Means and their defaults\<close>

lemma mean_or_mean2:
  "(if length xs > 0 then Some (mean2 xs) else None) = mean_or None Some xs"
  "(if length xs > 0 then mean2 xs else Fin 0) = mean_or (Fin 0) id xs"
  by (simp_all add: mean_or_def mean2_def)

subsection \<open>The folds of the builders\<close>

lemma subject_fold:
  "foldl (aggregateSubjectRatings_step h) m xs =
     upsert_fold (counted h) subjectId subject_init (subject_upd h) m xs"
proof -
  have "aggregateSubjectRatings_step h =
          (\<lambda>m s. if counted h s then map_upsert (subjectId s) (subject_init s) (subject_upd h s) m
                  else m)"
    by (intro ext)
       (simp add: aggregateSubjectRatings_step_def Let_def skipped_score_of counted_def
          subject_init_def subject_upd_def [abs_def] the_score_def cong: if_cong)
  then show ?thesis by (simp add: upsert_fold_def)
qed

lemma division_fold:
  "foldl (aggregateDivisionPerformance_step h) m xs =
     upsert_fold (counted h) divisionId division_init (division_upd h) m xs"
proof -
  have "aggregateDivisionPerformance_step h =
          (\<lambda>m s. if counted h s
                  then map_upsert (divisionId s) (division_init s) (division_upd h s) m
                  else m)"
    by (intro ext)
       (simp add: aggregateDivisionPerformance_step_def Let_def skipped_score_of counted_def
          division_init_def division_upd_def [abs_def] the_score_def)
  then show ?thesis by (simp add: upsert_fold_def)
qed

lemma year_fold:
  "foldl (aggregateAcademicYearTrends_step h) m xs =
     upsert_fold (counted h) academicYearId year_init (year_upd h) m xs"
proof -
  have "aggregateAcademicYearTrends_step h =
          (\<lambda>m s. if counted h s
                  then map_upsert (academicYearId s) (year_init s) (year_upd h s) m
                  else m)"
    by (intro ext)
       (simp add: aggregateAcademicYearTrends_step_def Let_def skipped_score_of counted_def
          year_init_def year_upd_def [abs_def] the_score_def)
  then show ?thesis by (simp add: upsert_fold_def)
qed











section \<open>Rows ordered by name\<close>










section \<open>Records without a positive score\<close>

lemma not_skipped_counted: "(\<lambda>s. \<not> skipped (score_of h (responseValue s))) = counted h"
  by (simp add: fun_eq_iff skipped_score_of counted_def)

lemma parsed_scores_positive: "parsed_scores h positive xs = scores_of h (\<lambda>_. True) xs"
  by (induction xs) (simp_all add: parsed_scores_def scores_of_def counted_def the_score_def)

lemma scores_of_filter_counted: "scores_of h P (filter (counted h) xs) = scores_of h P xs"
  by (simp add: scores_of_def conj_ac cong: filter_cong)

lemma parsed_scores_not_null:
  "parsed_scores h not_null (filter (\<lambda>s. score_of h (responseValue s) \<noteq> None) xs) =
     parsed_scores h not_null xs"
  by (induction xs) (simp_all add: parsed_scores_def not_null_def)

text \<open>
  C2 (as amended). Removing the records whose score is absent or at most 0 changes
  nothing in the output of \<open>aggregateSubjectRatings\<close>, \<open>aggregateFacultyPerformance\<close>,
  \<open>aggregateDivisionPerformance\<close> and \<open>aggregateAcademicYearTrends\<close>, nor in
  \<open>totalResponses\<close> and \<open>averageRating\<close> of \<open>calculateOverallStats\<close>. The rows of
  \<open>getSubjectWiseLectureLabRating\<close> and \<open>getSemesterTrendAnalysis\<close> count every record of
  the group in \<open>responseCount\<close>, and only the records with an absent score are without
  effect on their \<open>averageRating\<close>.
\<close>

theorem skipped_records_do_not_count:
  "aggregateSubjectRatings h (filter (\<lambda>s. \<not> skipped (score_of h (responseValue s))) snapshots) =
     aggregateSubjectRatings h snapshots
   \<and> aggregateFacultyPerformance h
         (filter (\<lambda>s. \<not> skipped (score_of h (responseValue s))) snapshots) =
       aggregateFacultyPerformance h snapshots
   \<and> aggregateDivisionPerformance h
         (filter (\<lambda>s. \<not> skipped (score_of h (responseValue s))) snapshots) =
       aggregateDivisionPerformance h snapshots
   \<and> aggregateAcademicYearTrends h
         (filter (\<lambda>s. \<not> skipped (score_of h (responseValue s))) snapshots) =
       aggregateAcademicYearTrends h snapshots
   \<and> os_totalResponses
         (calculateOverallStats h
            (filter (\<lambda>s. \<not> skipped (score_of h (responseValue s))) snapshots)) =
       os_totalResponses (calculateOverallStats h snapshots)
   \<and> os_averageRating
         (calculateOverallStats h
            (filter (\<lambda>s. \<not> skipped (score_of h (responseValue s))) snapshots)) =
       os_averageRating (calculateOverallStats h snapshots)
   \<and> sw_responseCount (getSubjectWiseLectureLabRating_row h (key, snapshots)) = length snapshots
   \<and> sw_averageRating
         (getSubjectWiseLectureLabRating_row h
            (key, filter (\<lambda>s. score_of h (responseValue s) \<noteq> None) snapshots)) =
       sw_averageRating (getSubjectWiseLectureLabRating_row h (key, snapshots))
   \<and> st_responseCount (getSemesterTrendAnalysis_row h (key, snapshots)) = length snapshots
   \<and> st_averageRating
         (getSemesterTrendAnalysis_row h
            (key, filter (\<lambda>s. score_of h (responseValue s) \<noteq> None) snapshots)) =
       st_averageRating (getSemesterTrendAnalysis_row h (key, snapshots))"
proof -
  have "aggregateSubjectRatings h (filter (counted h) snapshots) =
          aggregateSubjectRatings h snapshots"
    by (simp add: aggregateSubjectRatings_def subject_fold upsert_fold_filter)
  moreover have "aggregateFacultyPerformance h (filter (counted h) snapshots) =
          aggregateFacultyPerformance h snapshots"
    by (simp add: aggregateFacultyPerformance_def faculty_fold upsert_fold_filter)
  moreover have "aggregateDivisionPerformance h (filter (counted h) snapshots) =
          aggregateDivisionPerformance h snapshots"
    by (simp add: aggregateDivisionPerformance_def division_fold upsert_fold_filter)
  moreover have "aggregateAcademicYearTrends h (filter (counted h) snapshots) =
          aggregateAcademicYearTrends h snapshots"
    by (simp add: aggregateAcademicYearTrends_def year_fold upsert_fold_filter)
  moreover have "os_totalResponses (calculateOverallStats h (filter (counted h) snapshots)) =
          os_totalResponses (calculateOverallStats h snapshots)"
    and "os_averageRating (calculateOverallStats h (filter (counted h) snapshots)) =
          os_averageRating (calculateOverallStats h snapshots)"
    by (simp_all add: calculateOverallStats_def Let_def parsed_scores_positive
          scores_of_filter_counted)
  moreover have
    "sw_responseCount (getSubjectWiseLectureLabRating_row h (key, snapshots)) = length snapshots"
    "st_responseCount (getSemesterTrendAnalysis_row h (key, snapshots)) = length snapshots"
    by (simp_all add: getSubjectWiseLectureLabRating_row_def getSemesterTrendAnalysis_row_def
          Let_def)
  moreover have
    "sw_averageRating
       (getSubjectWiseLectureLabRating_row h
          (key, filter (\<lambda>s. score_of h (responseValue s) \<noteq> None) snapshots)) =
     sw_averageRating (getSubjectWiseLectureLabRating_row h (key, snapshots))"
    "st_averageRating
       (getSemesterTrendAnalysis_row h
          (key, filter (\<lambda>s. score_of h (responseValue s) \<noteq> None) snapshots)) =
     st_averageRating (getSemesterTrendAnalysis_row h (key, snapshots))"
    unfolding getSubjectWiseLectureLabRating_row_def getSemesterTrendAnalysis_row_def prod.case
      parsed_scores_not_null
    by (simp_all add: Let_def)
  ultimately show ?thesis
    by (simp only: not_skipped_counted)
qed

text \<open>
  C2 as stated fails. Of two records, one with the response \<open>"0"\<close> and one with 4, both
  older builders count two responses and report the mean 2, and \<open>calculateOverallStats\<close>
  counts two faculties, students and divisions with one counted response.
\<close>

theorem skipped_records_counted_counterexample:
  "skipped (score_of sample_host (responseValue zero_response))
   \<and> getSubjectWiseLectureLabRating sample_host legacy_db ''sem1'' None =
       Inr [\<lparr> sw_subject = ''Algebra'', sw_lectureType = ''LECTURE'',
               sw_averageRating = Fin 2, sw_responseCount = 2 \<rparr>]
   \<and> getSemesterTrendAnalysis sample_host legacy_db None None =
       Inr [\<lparr> st_semester = Fin 1, st_subject = ''Algebra'',
               st_averageRating = Fin 2, st_responseCount = 2 \<rparr>]
   \<and> calculateOverallStats sample_host (db_feedbackSnapshot legacy_db) =
       \<lparr> os_totalResponses = 1, os_averageRating = Fin 4, os_uniqueSubjects = 1,
         os_uniqueFaculties = 2, os_uniqueStudents = 2, os_uniqueDivisions = 2 \<rparr>
   \<and> calculateOverallStats sample_host [four_response] =
       \<lparr> os_totalResponses = 1, os_averageRating = Fin 4, os_uniqueSubjects = 1,
         os_uniqueFaculties = 1, os_uniqueStudents = 1, os_uniqueDivisions = 1 \<rparr>"
  by code_simp

lemma legacy_filter:
  "filter (\<lambda>s. \<not> skipped (score_of sample_host (responseValue s)))
     (db_feedbackSnapshot legacy_db) = [four_response]"
  by code_simp

lemma legacy_faculties:
  "map fp_facultyId (aggregateFacultyPerformance sample_host [four_response]) = [''f1'']"
  by code_simp

text \<open>
  The same two records: the rollup of both equals the rollup of the one that counts.
\<close>

theorem skipped_records_do_not_count_witness:
  "filter (\<lambda>s. \<not> skipped (score_of sample_host (responseValue s)))
     (db_feedbackSnapshot legacy_db) = [four_response]
   \<and> aggregateFacultyPerformance sample_host (db_feedbackSnapshot legacy_db) =
       aggregateFacultyPerformance sample_host [four_response]
   \<and> map fp_facultyId (aggregateFacultyPerformance sample_host (db_feedbackSnapshot legacy_db)) =
       [''f1'']
   \<and> os_totalResponses (calculateOverallStats sample_host (db_feedbackSnapshot legacy_db)) =
       os_totalResponses (calculateOverallStats sample_host [four_response])"
  using skipped_records_do_not_count [of sample_host "db_feedbackSnapshot legacy_db"]
    legacy_faculties
  by (simp add: legacy_filter)

section \<open>The mean of every group\<close>
















end
